theory Spec2Isabelle
  imports Main "HOL-Library.Word"
begin

unbundle bit_operations_syntax

section \<open>Strings\<close>

text \<open>
  A JavaScript string is modelled as a \<^typ>\<open>string\<close> holding its UTF-8 bytes, so the
  Cyrillic labels of the source are byte strings here.

  \<open>String.prototype.trim\<close> removes white space and line terminators from both ends:
  the code points U+0009 to U+000D, U+0020, U+00A0, U+1680, U+2000 to U+200A, U+2028,
  U+2029, U+202F, U+205F, U+3000 and U+FEFF. \<open>whiteSpace\<close> lists their UTF-8 encodings.
  No encoding is a prefix or a suffix of the encoding of another code point, so a string
  starts (ends) with such a code point exactly when its bytes start (end) with the
  encoding.
\<close>

definition whiteSpace :: "string list" where
  "whiteSpace =
     [[CHR 0x09], [CHR 0x0A], [CHR 0x0B], [CHR 0x0C], [CHR 0x0D], [CHR 0x20],
      [CHR 0xC2, CHR 0xA0], [CHR 0xE1, CHR 0x9A, CHR 0x80]] @
     map (\<lambda>b. [CHR 0xE2, CHR 0x80, b])
       [CHR 0x80, CHR 0x81, CHR 0x82, CHR 0x83, CHR 0x84, CHR 0x85, CHR 0x86, CHR 0x87,
        CHR 0x88, CHR 0x89, CHR 0x8A, CHR 0xA8, CHR 0xA9, CHR 0xAF] @
     [[CHR 0xE2, CHR 0x81, CHR 0x9F], [CHR 0xE3, CHR 0x80, CHR 0x80],
      [CHR 0xEF, CHR 0xBB, CHR 0xBF]]"

text \<open>\<open>stripLeading ws s\<close> removes from the start of \<open>s\<close> every leading member of \<open>ws\<close>.\<close>

fun stripLeading :: "string list \<Rightarrow> string \<Rightarrow> string" where
  "stripLeading ws [] = []"
| "stripLeading ws (c # s) =
     (case find (\<lambda>w. w \<noteq> [] \<and> take (length w) (c # s) = w) ws of
        None \<Rightarrow> c # s
      | Some w \<Rightarrow> stripLeading ws (drop (length w - 1) s))"

definition trim :: "string \<Rightarrow> string" where
  "trim s = rev (stripLeading (map rev whiteSpace) (rev (stripLeading whiteSpace s)))"

text \<open>
  \<open>xs[i]\<close> on a JavaScript array is \<open>undefined\<close> out of range; \<open>undefined\<close> is
  \<^const>\<open>None\<close> here.
\<close>

definition at_index :: "'a list \<Rightarrow> nat \<Rightarrow> 'a option" where
  "at_index xs i = (if i < length xs then Some (xs ! i) else None)"

text \<open>
  \<open>Number.prototype.toString\<close> on an integer: its decimal digits, most significant
  first, after a minus sign when it is negative.
\<close>

definition digitChar :: "nat \<Rightarrow> char" where
  "digitChar d = ''0123456789'' ! (d mod 10)"

fun natToString :: "nat \<Rightarrow> string" where
  "natToString n = (if n < 10 then [digitChar n] else natToString (n div 10) @ [digitChar (n mod 10)])"

declare natToString.simps [simp del]

definition toString :: "int \<Rightarrow> string" where
  "toString i = (if i < 0 then CHR ''-'' # natToString (nat (- i)) else natToString (nat i))"

definition isDigit :: "char \<Rightarrow> bool" where
  "isDigit c = (c \<in> set ''0123456789'')"

text \<open>
  \<open>String.prototype.substring(start, end)\<close> on non-negative integer arguments: both are
  clamped to the length and swapped when \<open>start > end\<close>.
\<close>

definition substring :: "string \<Rightarrow> nat \<Rightarrow> nat \<Rightarrow> string" where
  "substring s start fin =
     (let a = min start (length s); b = min fin (length s)
      in take (max a b - min a b) (drop (min a b) s))"

section \<open>KbHelper\<close>

text \<open>
  \<open>crc32.str\<close> of the package \<open>crc-32\<close>: the CRC-32 (reflected polynomial
  \<open>0xEDB88320\<close>, initial value and final exclusive-or all ones) of the UTF-8 bytes of the
  string, as a signed 32-bit integer. The table of the package holds, for every byte,
  the result of the eight shift steps below.
\<close>

definition crc32_shift :: "32 word \<Rightarrow> 32 word" where
  "crc32_shift c = (if bit c 0 then drop_bit 1 c XOR 0xEDB88320 else drop_bit 1 c)"

definition crc32_byte :: "32 word \<Rightarrow> char \<Rightarrow> 32 word" where
  "crc32_byte c b = (crc32_shift ^^ 8) (c XOR of_nat (of_char b))"

definition crc32_str :: "string \<Rightarrow> int" where
  "crc32_str s = sint (foldl crc32_byte 0xFFFFFFFF s XOR 0xFFFFFFFF)"

text \<open>
  \<open>generateRuleObjectId\<close> and \<open>generatePackageObjectId\<close> (KbHelper.ts, lines 19-29).
  \<open>Math.abs\<close> works on doubles, so the absolute value of \<open>-2^31\<close> does not wrap.
\<close>

definition generateRuleObjectId :: "string \<Rightarrow> string \<Rightarrow> string" where
  "generateRuleObjectId ruleName contentPrefix =
     (let objectId = toString \<bar>crc32_str ruleName\<bar>;
          objectId = substring objectId 0 9
      in contentPrefix @ ''-CR-'' @ objectId)"

definition generatePackageObjectId :: "string \<Rightarrow> string \<Rightarrow> string" where
  "generatePackageObjectId ruleName contentPrefix =
     (let objectId = toString \<bar>crc32_str ruleName\<bar>;
          objectId = substring objectId 0 9
      in contentPrefix @ ''-PKG-'' @ objectId)"

section \<open>Data model\<close>

text \<open>
  Modelled from the spec: \<open>Localization\<close> and \<open>LocalizationExample\<close>
  (models/content/localization is not among the sources). A localization entry holds a
  criterion, the two locale texts and an optional id; \<open>Localization.create\<close> builds an
  entry without id. A text is \<^const>\<open>None\<close> where the source passes \<open>undefined\<close>.
\<close>

record Localization =
  criteria :: string
  ruLocalizationText :: "string option"
  enLocalizationText :: "string option"
  localizationId :: "string option"

definition Localization_create :: "string \<Rightarrow> string option \<Rightarrow> string option \<Rightarrow> Localization" where
  "Localization_create cr ruLoc enLoc =
     \<lparr>criteria = cr, ruLocalizationText = ruLoc, enLocalizationText = enLoc, localizationId = None\<rparr>"

definition setLocalizationId :: "string \<Rightarrow> Localization \<Rightarrow> Localization" where
  "setLocalizationId locId loc = loc\<lparr>localizationId := Some locId\<rparr>"

record LocalizationExample =
  ruText :: string
  enText :: string

text \<open>
  The texts of dialogs, tooltips, progress reports and exceptions, one constructor per
  text of localizationEditorViewProvider.ts (the line is given), with the interpolated
  value as argument. \<open>MsgOther\<close> is a text produced by a collaborator.
\<close>

datatype message =
    MsgOnlyCorrelationsSupported \<comment> \<open>line 202\<close>
  | MsgNoLocalizationFired \<comment> \<open>line 216\<close>
  | MsgDefaultLocalizationFound \<comment> \<open>line 221\<close>
  | MsgLocalizationsNotVerified \<comment> \<open>line 222\<close>
  | MsgLocalizationsVerified \<comment> \<open>line 224\<close>
  | MsgUnexpectedTestingError \<comment> \<open>line 233\<close>
  | MsgCleanupFailed \<comment> \<open>line 244\<close>
  | MsgSaveFailed \<comment> \<open>line 256\<close>
  | MsgDuplicateCriterion string \<comment> \<open>line 281\<close>
  | MsgLocalizationsSaved string \<comment> \<open>line 306\<close>
  | MsgPreviousResultsFound \<comment> \<open>line 323\<close>
  | MsgGettingDependencies \<comment> \<open>line 335\<close>
  | MsgGettingEvents \<comment> \<open>line 340\<close>
  | MsgTestsNotPassed \<comment> \<open>line 346\<close>
  | MsgGeneratingLocalizations \<comment> \<open>line 350\<close>
  | MsgOther string

datatype exn =
    XpException message
  | OperationCanceledException
  | OtherException string

datatype ContentItemStatus = Default | Unverified | Verified

text \<open>
  Modelled from the spec: \<open>RuleBaseItem\<close> (models/content/ruleBaseItem is not among the
  sources), as the fields the provider reads and writes; a setter replaces its field.
\<close>

record RuleBaseItem =
  name :: string
  ruDescription :: string
  enDescription :: string
  localizations :: "Localization list"
  localizationExamples :: "LocalizationExample list"
  iconPath :: "string option"
  status :: ContentItemStatus
  statusTooltip :: "message option"

definition setRuDescription :: "string \<Rightarrow> RuleBaseItem \<Rightarrow> RuleBaseItem" where
  "setRuDescription d r = r\<lparr>ruDescription := d\<rparr>"

definition setEnDescription :: "string \<Rightarrow> RuleBaseItem \<Rightarrow> RuleBaseItem" where
  "setEnDescription d r = r\<lparr>enDescription := d\<rparr>"

definition setLocalizationTemplates :: "Localization list \<Rightarrow> RuleBaseItem \<Rightarrow> RuleBaseItem" where
  "setLocalizationTemplates ls r = r\<lparr>localizations := ls\<rparr>"

definition setLocalizationExamples :: "LocalizationExample list \<Rightarrow> RuleBaseItem \<Rightarrow> RuleBaseItem" where
  "setLocalizationExamples es r = r\<lparr>localizationExamples := es\<rparr>"

definition setStatus :: "ContentItemStatus \<Rightarrow> message option \<Rightarrow> RuleBaseItem \<Rightarrow> RuleBaseItem" where
  "setStatus st tip r = r\<lparr>status := st, statusTooltip := tip\<rparr>"

text \<open>The payload of a webview message: parallel arrays, one index per entry.\<close>

record LocalizationMessage =
  RuDescription :: string
  EnDescription :: string
  Criteria :: "string list"
  RuLocalizations :: "string list"
  EnLocalizations :: "string list"
  LocalizationIds :: "string list"

datatype command =
    BuildLocalizations LocalizationMessage
  | SaveLocalizations LocalizationMessage
  | OtherCommand string

section \<open>Collaborators and effects\<close>

text \<open>
  Every call the provider makes to a collaborator is recorded, in order, as an effect.
  \<open>SaveMetaInfoAndLocalizations r\<close> is the call that persists the rule in state \<open>r\<close>.
\<close>

datatype effect =
    ShowError message
  | ShowInfo message "string list"
  | ExceptionHelperShow exn message
  | LogWarn message exn
  | TreeRefresh RuleBaseItem
  | SaveMetaInfoAndLocalizations RuleBaseItem
  | ProgressReport message
  | GetIntegrationTestRunOptions
  | IntegrationTestRun string
  | BuildLocalizationExamples string
  | DeleteAllSubDirectoriesAndFiles string
  | ShowLocalizationEditor RuleBaseItem bool

text \<open>
  What the collaborators answer during one handling of a message. Their code is not
  among the sources, so the provider is modelled for every answer they can give:
  a result, or the exception they throw. \<open>existsSync\<close> and \<open>readdir\<close> are those of
  \<open>fs\<close>; \<open>readdir\<close> is rejected with an exception when the path cannot be read as a
  directory. \<open>showInfoAnswer\<close> is the button the user chose in the prompt of line 322,
  \<^const>\<open>None\<close> when the prompt was dismissed.
\<close>

record environment =
  textToOneLineAndTrim :: "string \<Rightarrow> string"
  isTestedLocalizationsRule :: "RuleBaseItem \<Rightarrow> bool"
  isDefaultLocalization :: "string \<Rightarrow> bool"
  refresh :: "RuleBaseItem \<Rightarrow> exn option"
  saveMetaInfoAndLocalizations :: "RuleBaseItem \<Rightarrow> exn option"
  existsSync :: "string \<Rightarrow> bool"
  readdir :: "string \<Rightarrow> exn + string list"
  showInfoAnswer :: "string option"
  getIntegrationTestRunOptions :: "RuleBaseItem \<Rightarrow> exn option"
  testRunnerRun :: "RuleBaseItem \<Rightarrow> exn + bool"
  buildLocalizationExamples :: "RuleBaseItem \<Rightarrow> string \<Rightarrow> exn + LocalizationExample list"
  deleteAllSubDirectoriesAndFiles :: "string \<Rightarrow> exn option"

text \<open>
  The state a message handler works on: the rule \<open>_rule\<close> refers to, the directory of
  the temporary files and the effects so far. \<open>_rule\<close> is declared \<open>RuleBaseItem\<close> and
  assigned (line 64) before the handler is registered (line 92).
\<close>

record session =
  rule :: RuleBaseItem
  integrationTestTmpFilesPath :: string
  effects :: "effect list"

definition emit :: "effect \<Rightarrow> session \<Rightarrow> session" where
  "emit e s = s\<lparr>effects := effects s @ [e]\<rparr>"

text \<open>The effects recorded between two states of a session.\<close>

definition newEffects :: "session \<Rightarrow> session \<Rightarrow> effect list" where
  "newEffects s s' = drop (length (effects s)) (effects s')"

definition onRule :: "(RuleBaseItem \<Rightarrow> RuleBaseItem) \<Rightarrow> session \<Rightarrow> session" where
  "onRule f s = s\<lparr>rule := f (rule s)\<rparr>"

text \<open>
  Modelled from the spec: \<open>JsHelper.findDuplicates\<close> (helpers/jsHelper is not among the
  sources). The spec: the first duplicate criterion encountered in input order, that
  is, the first element that repeats an earlier one; \<open>null\<close> without duplicates.
\<close>

fun findDuplicatesFrom :: "string list \<Rightarrow> string list \<Rightarrow> string option" where
  "findDuplicatesFrom seen [] = None"
| "findDuplicatesFrom seen (x # xs) =
     (if x \<in> set seen then Some x else findDuplicatesFrom (x # seen) xs)"

definition findDuplicates :: "string list \<Rightarrow> string option" where
  "findDuplicates arr = findDuplicatesFrom [] arr"

text \<open>
  Modelled from the spec: \<open>ExceptionHelper.show\<close> (helpers/exceptionHelper is not among
  the sources), as the dialogs it opens. The spec: a cancellation is surfaced silently,
  a failure of the tests with its own guidance, any other failure to the user.
\<close>

fun ExceptionHelper_show :: "exn \<Rightarrow> message \<Rightarrow> effect list" where
  "ExceptionHelper_show OperationCanceledException defaultMessage = []"
| "ExceptionHelper_show (XpException m) defaultMessage = [ShowError m]"
| "ExceptionHelper_show (OtherException t) defaultMessage = [ShowError defaultMessage]"

fun dialogsOf :: "effect \<Rightarrow> effect list" where
  "dialogsOf (ShowError m) = [ShowError m]"
| "dialogsOf (ShowInfo m buttons) = [ShowInfo m buttons]"
| "dialogsOf (ExceptionHelperShow e defaultMessage) = ExceptionHelper_show e defaultMessage"
| "dialogsOf _ = []"

text \<open>
  The calls the claims about the pipeline name: the run of the tests, the extraction and
  the cleanup of the directory.
\<close>

fun isTestRun :: "effect \<Rightarrow> bool" where
  "isTestRun (IntegrationTestRun p) = True"
| "isTestRun _ = False"

fun isExtraction :: "effect \<Rightarrow> bool" where
  "isExtraction (BuildLocalizationExamples p) = True"
| "isExtraction _ = False"

fun isCleanup :: "effect \<Rightarrow> bool" where
  "isCleanup (DeleteAllSubDirectoriesAndFiles p) = True"
| "isCleanup _ = False"

section \<open>LocalizationEditorViewProvider\<close>

subsection \<open>updateRule\<close>

text \<open>
  \<open>updateRule\<close> (lines 109-127) can be called before an editor was ever shown, so here
  \<open>_view\<close> and \<open>_rule\<close> may be undefined. The function writes into \<open>newRule\<close>, so the
  model returns it too. The rendering \<open>updateView\<close> starts is not awaited and is left
  out: it never changes what \<open>updateRule\<close> returns.
\<close>

datatype WebviewPanel = WebviewPanel string

record provider =
  p_view :: "WebviewPanel option"
  p_rule :: "RuleBaseItem option"

definition updateRule :: "RuleBaseItem \<Rightarrow> provider \<Rightarrow> bool \<times> RuleBaseItem \<times> provider" where
  "updateRule newRule p =
     (case p_view p of
        None \<Rightarrow> (False, newRule, p)
      | Some v \<Rightarrow>
          (case p_rule p of
             None \<Rightarrow> (False, newRule, p)
           | Some r \<Rightarrow>
               if name r = name newRule then
                 (let prevIcon = iconPath r;
                      newRule = newRule\<lparr>iconPath := prevIcon\<rparr>;
                      examples = localizationExamples r;
                      newRule = setLocalizationExamples examples newRule
                  in (True, newRule, p\<lparr>p_rule := Some newRule\<rparr>))
               else (False, newRule, p)))"

subsection \<open>saveLocalization\<close>

text \<open>
  The entry built for one index (lines 286-297). \<open>if (locId)\<close> holds for a defined,
  non-empty string.
\<close>

definition makeLocalization ::
    "string list \<Rightarrow> string list \<Rightarrow> string list \<Rightarrow> string \<Rightarrow> nat \<Rightarrow> Localization" where
  "makeLocalization ruLocalizations enLocalizations localizationIds cr index =
     (let ruLoc = at_index ruLocalizations index;
          enLoc = at_index enLocalizations index;
          loc = Localization_create cr ruLoc enLoc
      in case at_index localizationIds index of
           None \<Rightarrow> loc
         | Some locId \<Rightarrow> if locId \<noteq> [] then setLocalizationId locId loc else loc)"

text \<open>
  \<open>saveLocalization\<close> (lines 262-308). The result is \<open>Inl\<close> with the exception when one
  is thrown, and the session as it stands then.
\<close>

definition saveLocalization ::
    "environment \<Rightarrow> LocalizationMessage \<Rightarrow> bool \<Rightarrow> session \<Rightarrow> (exn + unit) \<times> session" where
  "saveLocalization env localization informUser s0 =
     (let ruDesc = trim (RuDescription localization);
          s1 = onRule (setRuDescription ruDesc) s0;
          enDesc = trim (EnDescription localization);
          s2 = onRule (setEnDescription enDesc) s1;
          crits = map trim (Criteria localization);
          ruLocalizations = map (textToOneLineAndTrim env) (RuLocalizations localization);
          enLocalizations = map (textToOneLineAndTrim env) (EnLocalizations localization);
          localizationIds = map trim (LocalizationIds localization)
      in case findDuplicates crits of
           Some firstDuplicate \<Rightarrow>
             (Inr (), emit (ShowError (MsgDuplicateCriterion firstDuplicate)) s2)
         | None \<Rightarrow>
             (let locs = map (\<lambda>index. makeLocalization ruLocalizations enLocalizations
                                localizationIds (crits ! index) index) [0..<length crits];
                  s3 = (if length locs \<noteq> 0 then onRule (setLocalizationTemplates locs) s2 else s2);
                  s4 = emit (SaveMetaInfoAndLocalizations (rule s3)) s3
              in case saveMetaInfoAndLocalizations env (rule s3) of
                   Some e \<Rightarrow> (Inl e, s4)
                 | None \<Rightarrow>
                     if informUser
                     then (Inr (), emit (ShowInfo (MsgLocalizationsSaved (name (rule s4))) []) s4)
                     else (Inr (), s4)))"

subsection \<open>getLocalizationExamples\<close>

definition USE_OLD_TESTS_RESULT :: string where
  "USE_OLD_TESTS_RESULT =
     [CHR 0xD0, CHR 0x98, CHR 0xD1, CHR 0x81, CHR 0xD0, CHR 0xBF, CHR 0xD0, CHR 0xBE,
      CHR 0xD0, CHR 0xBB, CHR 0xD1, CHR 0x8C, CHR 0xD0, CHR 0xB7, CHR 0xD0, CHR 0xBE,
      CHR 0xD0, CHR 0xB2, CHR 0xD0, CHR 0xB0, CHR 0xD1, CHR 0x82, CHR 0xD1, CHR 0x8C]"

definition RESTART_TESTS :: string where
  "RESTART_TESTS =
     [CHR 0xD0, CHR 0x9F, CHR 0xD0, CHR 0xBE, CHR 0xD0, CHR 0xB2, CHR 0xD1, CHR 0x82,
      CHR 0xD0, CHR 0xBE, CHR 0xD1, CHR 0x80, CHR 0xD0, CHR 0xB8, CHR 0xD1, CHR 0x82,
      CHR 0xD1, CHR 0x8C]"

text \<open>\<open>!result\<close> on a string that may be undefined: undefined or empty.\<close>

definition falsy :: "string option \<Rightarrow> bool" where
  "falsy r = (r = None \<or> r = Some [])"

text \<open>
  Lines 316-332: \<open>result\<close> stays undefined unless the directory exists and has an entry;
  then the user is asked, and a dismissed prompt throws \<open>OperationCanceledException\<close>.
  A rejection of \<open>readdir\<close> (line 319) leaves the function as it is.
\<close>

definition askForOldResults :: "environment \<Rightarrow> session \<Rightarrow> (exn + string option) \<times> session" where
  "askForOldResults env s =
     (if existsSync env (integrationTestTmpFilesPath s) then
        (case readdir env (integrationTestTmpFilesPath s) of
           Inl e \<Rightarrow> (Inl e, s)
         | Inr subDirItems \<Rightarrow>
             if length subDirItems > 0 then
               (let s1 = emit (ShowInfo MsgPreviousResultsFound [USE_OLD_TESTS_RESULT, RESTART_TESTS]) s;
                    result = showInfoAnswer env
                in if falsy result then (Inl OperationCanceledException, s1) else (Inr result, s1))
             else (Inr None, s))
      else (Inr None, s))"

text \<open>Lines 334-348: the tests are run unless the user chose the old results.\<close>

definition runTests :: "environment \<Rightarrow> string option \<Rightarrow> session \<Rightarrow> (exn + unit) \<times> session" where
  "runTests env result s =
     (if falsy result \<or> result = Some RESTART_TESTS then
        (let s1 = emit (ProgressReport MsgGettingDependencies) s;
             s2 = emit GetIntegrationTestRunOptions s1
         in case getIntegrationTestRunOptions env (rule s2) of
              Some e \<Rightarrow> (Inl e, s2)
            | None \<Rightarrow>
                (let s3 = emit (ProgressReport MsgGettingEvents) s2;
                     s4 = emit (IntegrationTestRun (integrationTestTmpFilesPath s3)) s3
                 in case testRunnerRun env (rule s4) of
                      Inl e \<Rightarrow> (Inl e, s4)
                    | Inr testsStatus \<Rightarrow>
                        if \<not> testsStatus then (Inl (XpException MsgTestsNotPassed), s4)
                        else (Inr (), s4)))
      else (Inr (), s))"

text \<open>\<open>getLocalizationExamples\<close> (lines 310-356).\<close>

definition getLocalizationExamples ::
    "environment \<Rightarrow> session \<Rightarrow> (exn + LocalizationExample list) \<times> session" where
  "getLocalizationExamples env s =
     (case askForOldResults env s of
        (Inl e, s1) \<Rightarrow> (Inl e, s1)
      | (Inr result, s1) \<Rightarrow>
          (case runTests env result s1 of
             (Inl e, s2) \<Rightarrow> (Inl e, s2)
           | (Inr u, s2) \<Rightarrow>
               (let s3 = emit (ProgressReport MsgGeneratingLocalizations) s2;
                    s4 = emit (BuildLocalizationExamples (integrationTestTmpFilesPath s3)) s3
                in (buildLocalizationExamples env (rule s4) (integrationTestTmpFilesPath s4), s4))))"

subsection \<open>receiveMessageFromWebView\<close>

text \<open>\<open>ContentTreeProvider.refresh\<close>, awaited at lines 207 and 227.\<close>

definition refreshTree :: "environment \<Rightarrow> session \<Rightarrow> (exn + unit) \<times> session" where
  "refreshTree env s =
     (let s1 = emit (TreeRefresh (rule s)) s
      in case refresh env (rule s) of Some e \<Rightarrow> (Inl e, s1) | None \<Rightarrow> (Inr (), s1))"

text \<open>Lines 214-230: what the handler does with the examples it obtained.\<close>

definition classifyExamples ::
    "environment \<Rightarrow> LocalizationExample list \<Rightarrow> session \<Rightarrow> (exn + unit) \<times> session" where
  "classifyExamples env locExamples s =
     (if length locExamples = 0 then (Inr (), emit (ShowInfo MsgNoLocalizationFired []) s)
      else
        (let verifiedLocalization = list_ex (\<lambda>le. isDefaultLocalization env (ruText le)) locExamples;
             s1 = (if verifiedLocalization
                   then onRule (setStatus Unverified (Some MsgLocalizationsNotVerified))
                          (emit (ShowError MsgDefaultLocalizationFound) s)
                   else onRule (setStatus Verified (Some MsgLocalizationsVerified)) s)
         in case refreshTree env s1 of
              (Inl e, s2) \<Rightarrow> (Inl e, s2)
            | (Inr u, s2) \<Rightarrow>
                (let s3 = onRule (setLocalizationExamples locExamples) s2
                 in (Inr (), emit (ShowLocalizationEditor (rule s3) True) s3))))"

text \<open>Lines 199-231: the body of the \<open>try\<close> of \<open>buildLocalizations\<close>.\<close>

definition buildLocalizationsTry ::
    "environment \<Rightarrow> LocalizationMessage \<Rightarrow> session \<Rightarrow> (exn + unit) \<times> session" where
  "buildLocalizationsTry env payload s =
     (if \<not> isTestedLocalizationsRule env (rule s)
      then (Inr (), emit (ShowInfo MsgOnlyCorrelationsSupported []) s)
      else
        (let s1 = onRule (setStatus Default None) s
         in case refreshTree env s1 of
              (Inl e, s2) \<Rightarrow> (Inl e, s2)
            | (Inr u, s2) \<Rightarrow>
                (case saveLocalization env payload False s2 of
                   (Inl e, s3) \<Rightarrow> (Inl e, s3)
                 | (Inr u, s3) \<Rightarrow>
                     (case getLocalizationExamples env s3 of
                        (Inl e, s4) \<Rightarrow> (Inl e, s4)
                      | (Inr locExamples, s4) \<Rightarrow> classifyExamples env locExamples s4))))"

text \<open>Lines 232-246: the \<open>catch\<close> of \<open>buildLocalizations\<close>.\<close>

definition buildLocalizationsCatch :: "environment \<Rightarrow> exn \<Rightarrow> session \<Rightarrow> session" where
  "buildLocalizationsCatch env error s =
     (let s1 = emit (ExceptionHelperShow error MsgUnexpectedTestingError) s
      in if error = OperationCanceledException then s1
         else
           (let s2 = emit (DeleteAllSubDirectoriesAndFiles (integrationTestTmpFilesPath s1)) s1
            in case deleteAllSubDirectoriesAndFiles env (integrationTestTmpFilesPath s1) of
                 Some e \<Rightarrow> emit (LogWarn MsgCleanupFailed e) s2
               | None \<Rightarrow> s2))"

text \<open>
  \<open>receiveMessageFromWebView\<close> (lines 196-260). The result says whether the handler
  itself throws.
\<close>

definition receiveMessageFromWebView ::
    "environment \<Rightarrow> command \<Rightarrow> session \<Rightarrow> (exn + unit) \<times> session" where
  "receiveMessageFromWebView env message s =
     (case message of
        BuildLocalizations payload \<Rightarrow>
          (case buildLocalizationsTry env payload s of
             (Inr u, s1) \<Rightarrow> (Inr (), s1)
           | (Inl error, s1) \<Rightarrow> (Inr (), buildLocalizationsCatch env error s1))
      | SaveLocalizations payload \<Rightarrow>
          (case saveLocalization env payload True s of
             (Inr u, s1) \<Rightarrow> (Inr (), s1)
           | (Inl error, s1) \<Rightarrow> (Inr (), emit (ExceptionHelperShow error MsgSaveFailed) s1))
      | OtherCommand c \<Rightarrow> (Inr (), s))"

section \<open>Example inputs\<close>

text \<open>
  A rule with one localization entry, a session on it, and collaborators that succeed:
  no directory of old results, all tests pass, no example is produced.
  \<^const>\<open>trim\<close> stands in for \<open>StringHelper.textToOneLineAndTrim\<close>, and the text
  \<open>default\<close> for the default localization \<open>TestHelper.isDefaultLocalization\<close> recognises.
\<close>

definition exampleRule :: RuleBaseItem where
  "exampleRule =
     \<lparr>name = ''Rule'', ruDescription = ''old ru'', enDescription = ''old en'',
      localizations = [\<lparr>criteria = ''old'', ruLocalizationText = Some ''ru'',
                        enLocalizationText = Some ''en'', localizationId = Some ''id0''\<rparr>],
      localizationExamples = [], iconPath = None, status = Verified, statusTooltip = None\<rparr>"

definition exampleSession :: session where
  "exampleSession = \<lparr>rule = exampleRule, integrationTestTmpFilesPath = ''/tmp/x'', effects = []\<rparr>"

definition exampleEnvironment :: environment where
  "exampleEnvironment =
     \<lparr>textToOneLineAndTrim = trim,
      isTestedLocalizationsRule = (\<lambda>r. True),
      isDefaultLocalization = (\<lambda>t. t = ''default''),
      refresh = (\<lambda>r. None),
      saveMetaInfoAndLocalizations = (\<lambda>r. None),
      existsSync = (\<lambda>p. False),
      readdir = (\<lambda>p. Inr []),
      showInfoAnswer = None,
      getIntegrationTestRunOptions = (\<lambda>r. None),
      testRunnerRun = (\<lambda>r. Inr True),
      buildLocalizationExamples = (\<lambda>r p. Inr []),
      deleteAllSubDirectoriesAndFiles = (\<lambda>p. None)\<rparr>"

definition exampleMessage :: "string list \<Rightarrow> LocalizationMessage" where
  "exampleMessage cs =
     \<lparr>RuDescription = '' new ru '', EnDescription = ''new en'', Criteria = cs,
      RuLocalizations = map (\<lambda>c. ''ru '' @ c) cs, EnLocalizations = map (\<lambda>c. ''en '' @ c) cs,
      LocalizationIds = map (\<lambda>c. []) cs\<rparr>"

text \<open>Collaborators for which a test fails.\<close>

definition failingTestsEnvironment :: environment where
  "failingTestsEnvironment = exampleEnvironment\<lparr>testRunnerRun := (\<lambda>r. Inr False)\<rparr>"

text \<open>Collaborators with results of an earlier run, and the answer to the prompt.\<close>

definition oldResultsEnvironment :: "string option \<Rightarrow> environment" where
  "oldResultsEnvironment answer =
     exampleEnvironment\<lparr>existsSync := (\<lambda>p. True), readdir := (\<lambda>p. Inr [''raw_events.json'']),
       showInfoAnswer := answer\<rparr>"

text \<open>Collaborators for which the path exists and cannot be read as a directory.\<close>

definition unreadableEnvironment :: environment where
  "unreadableEnvironment =
     exampleEnvironment\<lparr>existsSync := (\<lambda>p. True), readdir := (\<lambda>p. Inl (OtherException ''ENOTDIR''))\<rparr>"

text \<open>Collaborators for which the extraction fails, and the cleanup after it too.\<close>

definition brokenDiskEnvironment :: environment where
  "brokenDiskEnvironment =
     exampleEnvironment\<lparr>buildLocalizationExamples := (\<lambda>r p. Inl (OtherException ''EIO'')),
       deleteAllSubDirectoriesAndFiles := (\<lambda>p. Some (OtherException ''EBUSY''))\<rparr>"

definition exampleProvider :: provider where
  "exampleProvider =
     \<lparr>p_view = Some (WebviewPanel ''Rule''),
      p_rule = Some (exampleRule\<lparr>iconPath := Some ''verified.svg'',
                 localizationExamples := [\<lparr>ruText = ''ru'', enText = ''en''\<rparr>]\<rparr>)\<rparr>"

section \<open>Decimal digits and substrings\<close>

lemma digitChar_isDigit: "isDigit (digitChar d)"
proof -
  have "d mod 10 < length ''0123456789''" by simp
  then have "''0123456789'' ! (d mod 10) \<in> set ''0123456789''" by (rule nth_mem)
  then show ?thesis by (simp only: digitChar_def isDigit_def)
qed

lemma natToString_digits: "list_all isDigit (natToString n)"
  by (induction n rule: natToString.induct)
     (subst natToString.simps, simp add: digitChar_isDigit)

lemma natToString_nonempty: "natToString n \<noteq> []"
  by (subst natToString.simps) simp

lemma toString_nonneg: "0 \<le> i \<Longrightarrow> toString i = natToString (nat i)"
  by (simp add: toString_def)

lemma substring_0: "substring s 0 n = take n s"
  by (simp add: substring_def Let_def min_def)

lemma objectId_digits:
  "list_all isDigit (substring (toString \<bar>crc32_str ruleName\<bar>) 0 9)"
proof -
  have "list_all isDigit (take 9 (natToString (nat \<bar>crc32_str ruleName\<bar>)))"
    using natToString_digits [of "nat \<bar>crc32_str ruleName\<bar>"]
    by (auto simp: list_all_iff dest: in_set_takeD)
  then show ?thesis by (simp add: substring_0 toString_nonneg)
qed

section \<open>Duplicate criteria\<close>

lemma findDuplicatesFrom_None:
  "findDuplicatesFrom seen xs = None \<longleftrightarrow> distinct xs \<and> set xs \<inter> set seen = {}"
  by (induction xs arbitrary: seen) auto

lemma findDuplicates_None: "findDuplicates xs = None \<longleftrightarrow> distinct xs"
  by (simp add: findDuplicates_def findDuplicatesFrom_None)

lemma findDuplicatesFrom_Some:
  "findDuplicatesFrom seen xs = Some d \<Longrightarrow>
     \<exists>j<length xs. xs ! j = d \<and> d \<in> set seen \<union> set (take j xs) \<and>
       distinct (take j xs) \<and> set (take j xs) \<inter> set seen = {}"
proof (induction xs arbitrary: seen)
  case Nil
  then show ?case by simp
next
  case (Cons x xs)
  show ?case
  proof (cases "x \<in> set seen")
    case True
    with Cons.prems have "d = x" by simp
    with True show ?thesis by (intro exI [of _ 0]) simp
  next
    case False
    with Cons.prems have "findDuplicatesFrom (x # seen) xs = Some d" by simp
    from Cons.IH [OF this] obtain j where j: "j < length xs" "xs ! j = d"
      "d \<in> set (x # seen) \<union> set (take j xs)" "distinct (take j xs)"
      "set (take j xs) \<inter> set (x # seen) = {}" by blast
    with False show ?thesis by (intro exI [of _ "Suc j"]) auto
  qed
qed

lemma findDuplicates_Some:
  assumes "findDuplicates xs = Some d"
  shows "\<exists>j<length xs. xs ! j = d \<and> d \<in> set (take j xs) \<and> distinct (take j xs)"
  using findDuplicatesFrom_Some [of "[]" xs d] assms by (auto simp: findDuplicates_def)

lemma first_repeat:
  assumes "i < j" "j < length xs" "xs ! i = xs ! j"
  shows "\<exists>j'\<le>j. findDuplicates xs = Some (xs ! j') \<and> (\<exists>i'<j'. xs ! i' = xs ! j') \<and>
           distinct (take j' xs)"
proof -
  have "\<not> distinct xs"
  proof
    assume "distinct xs"
    with assms have "i = j" by (simp add: nth_eq_iff_index_eq)
    with assms show False by simp
  qed
  then obtain d where d: "findDuplicates xs = Some d"
    using findDuplicates_None [of xs] by (cases "findDuplicates xs") auto
  from findDuplicates_Some [OF d] obtain j' where j': "j' < length xs" "xs ! j' = d"
    "d \<in> set (take j' xs)" "distinct (take j' xs)" by blast
  have le: "j' \<le> j"
  proof (rule ccontr)
    assume "\<not> j' \<le> j"
    then have lt: "j < j'" by simp
    with assms j' have eq: "take j' xs ! i = take j' xs ! j"
      and li: "i < length (take j' xs)" and lj: "j < length (take j' xs)" by simp_all
    have "i = j"
      using nth_eq_iff_index_eq [OF \<open>distinct (take j' xs)\<close> li lj] eq by blast
    with assms show False by simp
  qed
  from j' obtain i' where i': "i' < j'" "xs ! i' = d"
    by (auto simp: in_set_conv_nth)
  show ?thesis
  proof (rule exI [of _ j'], intro conjI)
    show "j' \<le> j" by (fact le)
    show "findDuplicates xs = Some (xs ! j')" using d j' by simp
    show "\<exists>i'<j'. xs ! i' = xs ! j'" using i' j' by auto
    show "distinct (take j' xs)" using j' by simp
  qed
qed

section \<open>The effect of saveLocalization\<close>

lemma makeLocalization_eq:
  "makeLocalization ru en ids cr index =
     \<lparr>criteria = cr, ruLocalizationText = at_index ru index,
      enLocalizationText = at_index en index,
      localizationId = (case at_index ids index of None \<Rightarrow> None
                        | Some locId \<Rightarrow> if locId \<noteq> [] then Some locId else None)\<rparr>"
  by (simp add: makeLocalization_def Localization_create_def setLocalizationId_def Let_def
           split: option.splits)

lemma saveLocalization_on_duplicate:
  assumes "findDuplicates (map trim (Criteria m)) = Some d"
  shows "saveLocalization env m informUser s =
           (Inr (), s\<lparr>rule := (rule s)\<lparr>ruDescription := trim (RuDescription m),
                                       enDescription := trim (EnDescription m)\<rparr>,
                     effects := effects s @ [ShowError (MsgDuplicateCriterion d)]\<rparr>)"
  using assms
  by (simp add: saveLocalization_def Let_def emit_def onRule_def setRuDescription_def
        setEnDescription_def)

lemma saveLocalization_on_valid:
  assumes "findDuplicates (map trim (Criteria m)) = None"
  shows "saveLocalization env m informUser s =
     (let locs = map (\<lambda>index. makeLocalization (map (textToOneLineAndTrim env) (RuLocalizations m))
                        (map (textToOneLineAndTrim env) (EnLocalizations m))
                        (map trim (LocalizationIds m)) (trim (Criteria m ! index)) index)
                    [0..<length (Criteria m)];
          r = (rule s)\<lparr>ruDescription := trim (RuDescription m),
                        enDescription := trim (EnDescription m),
                        localizations := (if Criteria m = [] then localizations (rule s) else locs)\<rparr>
      in (case saveMetaInfoAndLocalizations env r of Some e \<Rightarrow> Inl e | None \<Rightarrow> Inr (),
          s\<lparr>rule := r,
            effects := effects s @ SaveMetaInfoAndLocalizations r #
              (if saveMetaInfoAndLocalizations env r = None \<and> informUser
               then [ShowInfo (MsgLocalizationsSaved (name (rule s))) []] else [])\<rparr>))"
proof (cases "Criteria m = []")
  case True
  with assms show ?thesis
    by (cases "saveMetaInfoAndLocalizations env ((rule s)\<lparr>ruDescription := trim (RuDescription m),
                        enDescription := trim (EnDescription m)\<rparr>)")
       (simp_all add: saveLocalization_def Let_def emit_def onRule_def setRuDescription_def
          setEnDescription_def)
next
  case False
  let ?locs = "map (\<lambda>index. makeLocalization (map (textToOneLineAndTrim env) (RuLocalizations m))
                        (map (textToOneLineAndTrim env) (EnLocalizations m))
                        (map trim (LocalizationIds m)) (trim (Criteria m ! index)) index)
                    [0..<length (Criteria m)]"
  have locs: "map (\<lambda>index. makeLocalization (map (textToOneLineAndTrim env) (RuLocalizations m))
                        (map (textToOneLineAndTrim env) (EnLocalizations m))
                        (map trim (LocalizationIds m)) (map trim (Criteria m) ! index) index)
                    [0..<length (Criteria m)] = ?locs"
    by (rule map_cong) simp_all
  from False assms show ?thesis
    by (cases "saveMetaInfoAndLocalizations env ((rule s)\<lparr>ruDescription := trim (RuDescription m),
                        enDescription := trim (EnDescription m), localizations := ?locs\<rparr>)")
       (simp_all add: saveLocalization_def Let_def emit_def onRule_def setRuDescription_def
          setEnDescription_def setLocalizationTemplates_def locs)
qed

text \<open>\<open>trim\<close> on the strings of the examples; the last ends with U+00A0.\<close>

lemma trim_Nil: "trim [] = []"
  by (simp add: trim_def)

lemma trim_a: "trim ''a'' = ''a''"
  by (simp add: trim_def whiteSpace_def)

lemma trim_a_space: "trim ''a '' = ''a''"
  by (simp add: trim_def whiteSpace_def)

lemma trim_b: "trim ''b'' = ''b''"
  by (simp add: trim_def whiteSpace_def)

lemma trim_descriptions: "trim '' new ru '' = ''new ru''" "trim ''new en'' = ''new en''"
  by (simp_all add: trim_def whiteSpace_def)

lemma trim_texts: "trim ''ru a'' = ''ru a''" "trim ''ru b'' = ''ru b''"
  "trim ''en a'' = ''en a''" "trim ''en b'' = ''en b''"
  by (simp_all add: trim_def whiteSpace_def)

lemma trim_ids: "trim '' id1 '' = ''id1''" "trim '' '' = []"
  by (simp_all add: trim_def whiteSpace_def)

lemma trim_a_nbsp: "trim [CHR 0x61, CHR 0xC2, CHR 0xA0] = ''a''"
  by (simp add: trim_def whiteSpace_def)

lemmas trim_examples =
  trim_Nil trim_a trim_a_space trim_b trim_descriptions trim_texts trim_ids trim_a_nbsp

lemma saveLocalization_localizations:
  assumes "distinct (map trim (Criteria m))"
  shows "localizations (rule (snd (saveLocalization env m informUser s))) =
           (if Criteria m = [] then localizations (rule s)
            else map (\<lambda>index. makeLocalization (map (textToOneLineAndTrim env) (RuLocalizations m))
                        (map (textToOneLineAndTrim env) (EnLocalizations m))
                        (map trim (LocalizationIds m)) (trim (Criteria m ! index)) index)
                    [0..<length (Criteria m)])"
proof -
  from assms have "findDuplicates (map trim (Criteria m)) = None"
    by (simp add: findDuplicates_None)
  from saveLocalization_on_valid [OF this, of env informUser s]
  show ?thesis by (simp add: Let_def)
qed

lemma upt_2: "[0..<2] = [0, 1]"
  by (simp add: upt_rec)

lemma makeLocalization_map:
  "makeLocalization (map f ru) (map f en) (map trim ids) cr i =
     \<lparr>criteria = cr, ruLocalizationText = map_option f (at_index ru i),
      enLocalizationText = map_option f (at_index en i),
      localizationId = (case at_index ids i of None \<Rightarrow> None
                        | Some locId \<Rightarrow> if trim locId \<noteq> [] then Some (trim locId) else None)\<rparr>"
  by (simp add: makeLocalization_eq at_index_def)

section \<open>The effects of the pipeline\<close>

lemma askForOldResults_effects:
  "askForOldResults env s =
     (if existsSync env (integrationTestTmpFilesPath s) then
        (case readdir env (integrationTestTmpFilesPath s) of
           Inl e \<Rightarrow> (Inl e, s)
         | Inr items \<Rightarrow>
             if items \<noteq> [] then
               (if falsy (showInfoAnswer env) then Inl OperationCanceledException
                else Inr (showInfoAnswer env),
                s\<lparr>effects := effects s @
                     [ShowInfo MsgPreviousResultsFound [USE_OLD_TESTS_RESULT, RESTART_TESTS]]\<rparr>)
             else (Inr None, s))
      else (Inr None, s))"
  by (auto simp: askForOldResults_def Let_def emit_def split: sum.splits)

lemma runTests_effects:
  "runTests env result s =
     (if falsy result \<or> result = Some RESTART_TESTS then
        (case getIntegrationTestRunOptions env (rule s) of
           Some e \<Rightarrow> (Inl e, s\<lparr>effects := effects s @
                         [ProgressReport MsgGettingDependencies, GetIntegrationTestRunOptions]\<rparr>)
         | None \<Rightarrow>
             (case testRunnerRun env (rule s) of
                Inl e \<Rightarrow> Inl e
              | Inr testsStatus \<Rightarrow> if testsStatus then Inr () else Inl (XpException MsgTestsNotPassed),
              s\<lparr>effects := effects s @
                 [ProgressReport MsgGettingDependencies, GetIntegrationTestRunOptions,
                  ProgressReport MsgGettingEvents,
                  IntegrationTestRun (integrationTestTmpFilesPath s)]\<rparr>))
      else (Inr (), s))"
  by (auto simp: runTests_def Let_def emit_def split: option.splits sum.splits)


lemma refreshTree_frame:
  "refreshTree env s = (r, s') \<Longrightarrow>
     effects s' = effects s @ [TreeRefresh (rule s)] \<and> rule s' = rule s \<and>
     integrationTestTmpFilesPath s' = integrationTestTmpFilesPath s"
  by (auto simp: refreshTree_def Let_def emit_def split: option.splits)

lemma saveLocalization_frame:
  assumes "saveLocalization env m b s = (r, s')"
  shows "\<exists>es. effects s' = effects s @ es \<and> \<not> list_ex isTestRun es \<and>
            \<not> list_ex isExtraction es \<and> \<not> list_ex isCleanup es \<and>
            integrationTestTmpFilesPath s' = integrationTestTmpFilesPath s"
proof (cases "findDuplicates (map trim (Criteria m))")
  case None
  from saveLocalization_on_valid [OF this, of env b s] assms show ?thesis
    by (auto simp: Let_def)
next
  case (Some d)
  from saveLocalization_on_duplicate [OF this, of env b s] assms show ?thesis
    by auto
qed

lemma getLocalizationExamples_frame:
  assumes "getLocalizationExamples env s = (r, s')"
  shows "\<exists>es. effects s' = effects s @ es \<and> \<not> list_ex isCleanup es \<and>
           integrationTestTmpFilesPath s' = integrationTestTmpFilesPath s \<and>
           (testRunnerRun env (rule s) = Inr False \<and> list_ex isTestRun es \<longrightarrow>
              r = Inl (XpException MsgTestsNotPassed) \<and> \<not> list_ex isExtraction es) \<and>
           (testRunnerRun env (rule s) = Inr False \<and> (\<exists>ex. r = Inr ex) \<longrightarrow>
              \<not> list_ex isTestRun es)"
  using assms
  by (auto simp: getLocalizationExamples_def askForOldResults_effects runTests_effects Let_def
        emit_def split: if_splits option.splits sum.splits)

lemma classifyExamples_frame:
  assumes "classifyExamples env ex s = (r, s')"
  shows "\<exists>es. effects s' = effects s @ es \<and> \<not> list_ex isTestRun es \<and>
            \<not> list_ex isExtraction es \<and> \<not> list_ex isCleanup es \<and>
            integrationTestTmpFilesPath s' = integrationTestTmpFilesPath s"
  using assms
  by (auto simp: classifyExamples_def refreshTree_def Let_def emit_def onRule_def
        split: if_splits option.splits)

lemma buildLocalizationsTry_frame:
  assumes "buildLocalizationsTry env payload s = (r, s')"
  shows "\<exists>es. effects s' = effects s @ es \<and> \<not> list_ex isCleanup es \<and>
           integrationTestTmpFilesPath s' = integrationTestTmpFilesPath s \<and>
           ((\<forall>x. testRunnerRun env x = Inr False) \<and> list_ex isTestRun es \<longrightarrow>
              r = Inl (XpException MsgTestsNotPassed) \<and> \<not> list_ex isExtraction es)"
proof (cases "isTestedLocalizationsRule env (rule s)")
  case False
  with assms(1) have "effects s' = effects s @ [ShowInfo MsgOnlyCorrelationsSupported []]"
    "integrationTestTmpFilesPath s' = integrationTestTmpFilesPath s"
    by (auto simp: buildLocalizationsTry_def emit_def)
  then show ?thesis by (intro exI [of _ "[ShowInfo MsgOnlyCorrelationsSupported []]"]) simp
next
  case True
  let ?t = "TreeRefresh (rule (onRule (setStatus Default None) s))"
  obtain r2 s2 where s2: "refreshTree env (onRule (setStatus Default None) s) = (r2, s2)"
    by (cases "refreshTree env (onRule (setStatus Default None) s)")
  from refreshTree_frame [OF s2] have e2: "effects s2 = effects s @ [?t]"
    "integrationTestTmpFilesPath s2 = integrationTestTmpFilesPath s"
    by (simp_all add: onRule_def)
  from True assms(1) s2 have step2:
    "(case r2 of Inl e \<Rightarrow> (Inl e, s2)
      | Inr u \<Rightarrow>
        (case saveLocalization env payload False s2 of
           (Inl e, s3) \<Rightarrow> (Inl e, s3)
         | (Inr u, s3) \<Rightarrow>
             (case getLocalizationExamples env s3 of
                (Inl e, s4) \<Rightarrow> (Inl e, s4)
              | (Inr locExamples, s4) \<Rightarrow> classifyExamples env locExamples s4))) = (r, s')"
    by (simp add: buildLocalizationsTry_def Let_def)
  show ?thesis
  proof (cases r2)
    case (Inl e)
    with step2 have "s' = s2" by simp
    with e2 show ?thesis by (intro exI [of _ "[?t]"]) simp
  next
    case (Inr u2)
    obtain r3 s3 where s3: "saveLocalization env payload False s2 = (r3, s3)"
      by (cases "saveLocalization env payload False s2")
    from saveLocalization_frame [OF s3] obtain es3 where e3: "effects s3 = effects s2 @ es3"
      "\<not> list_ex isTestRun es3" "\<not> list_ex isExtraction es3" "\<not> list_ex isCleanup es3"
      "integrationTestTmpFilesPath s3 = integrationTestTmpFilesPath s2" by blast
    from step2 Inr s3 have step3:
      "(case r3 of Inl e \<Rightarrow> (Inl e, s3)
        | Inr u \<Rightarrow>
             (case getLocalizationExamples env s3 of
                (Inl e, s4) \<Rightarrow> (Inl e, s4)
              | (Inr locExamples, s4) \<Rightarrow> classifyExamples env locExamples s4)) = (r, s')"
      by simp
    show ?thesis
    proof (cases r3)
      case (Inl e)
      with step3 have "s' = s3" by simp
      with e2 e3 show ?thesis by (intro exI [of _ "?t # es3"]) simp
    next
      case u3: (Inr u3)
      obtain r4 s4 where s4: "getLocalizationExamples env s3 = (r4, s4)"
        by (cases "getLocalizationExamples env s3")
      from getLocalizationExamples_frame [OF s4] obtain es4 where
        e4: "effects s4 = effects s3 @ es4" "\<not> list_ex isCleanup es4"
          "integrationTestTmpFilesPath s4 = integrationTestTmpFilesPath s3"
          "testRunnerRun env (rule s3) = Inr False \<and> list_ex isTestRun es4 \<longrightarrow>
             r4 = Inl (XpException MsgTestsNotPassed) \<and> \<not> list_ex isExtraction es4"
          "testRunnerRun env (rule s3) = Inr False \<and> (\<exists>ex. r4 = Inr ex) \<longrightarrow>
             \<not> list_ex isTestRun es4" by blast
      from step3 u3 s4 have step4:
        "(case r4 of Inl e \<Rightarrow> (Inl e, s4)
          | Inr locExamples \<Rightarrow> classifyExamples env locExamples s4) = (r, s')"
        by simp
      show ?thesis
      proof (cases r4)
        case (Inl e)
        with step4 have "s' = s4" "r = Inl e" by simp_all
        with Inl e2 e3 e4 show ?thesis by (intro exI [of _ "?t # es3 @ es4"]) auto
      next
        case ex: (Inr ex)
        with step4 have c: "classifyExamples env ex s4 = (r, s')" by simp
        from classifyExamples_frame [OF c] obtain es5 where e5: "effects s' = effects s4 @ es5"
          "\<not> list_ex isTestRun es5" "\<not> list_ex isExtraction es5" "\<not> list_ex isCleanup es5"
          "integrationTestTmpFilesPath s' = integrationTestTmpFilesPath s4" by blast
        from ex e4(5) have "testRunnerRun env (rule s3) = Inr False \<longrightarrow> \<not> list_ex isTestRun es4"
          by blast
        with e2 e3 e4(1,2,3) e5 show ?thesis by (intro exI [of _ "?t # es3 @ es4 @ es5"]) auto
      qed
    qed
  qed
qed

section \<open>Saving localizations\<close>

text \<open>
  C1, as amended. When the submitted criteria contain a duplicate after trimming,
  \<open>saveLocalization\<close> returns without an exception, shows one error and does nothing
  else: the persisting call is not made, and the rule is the rule before the call except
  for its two descriptions, which are by then replaced with the trimmed descriptions of
  the message (lines 264-271 run before the check of line 279). So the localization
  entries, the name, the examples, the icon and the status are unchanged. The criterion
  the error names is a duplicate: the trimmed criterion at a position \<open>j'\<close> that equals the
  trimmed criterion at an earlier position, the first such position.
\<close>

theorem saveLocalization_duplicate:
  assumes "\<not> distinct (map trim (Criteria m))"
  shows "fst (saveLocalization env m informUser s) = Inr () \<and>
         rule (snd (saveLocalization env m informUser s)) =
           (rule s)\<lparr>ruDescription := trim (RuDescription m),
                    enDescription := trim (EnDescription m)\<rparr> \<and>
         localizations (rule (snd (saveLocalization env m informUser s))) = localizations (rule s) \<and>
         (\<exists>i' j'. i' < j' \<and> j' < length (Criteria m) \<and>
            trim (Criteria m ! i') = trim (Criteria m ! j') \<and>
            distinct (map trim (take j' (Criteria m))) \<and>
            newEffects s (snd (saveLocalization env m informUser s)) =
              [ShowError (MsgDuplicateCriterion (trim (Criteria m ! j')))])"
proof -
  let ?cs = "map trim (Criteria m)"
  from assms obtain d where d: "findDuplicates ?cs = Some d"
    using findDuplicates_None [of ?cs] by (cases "findDuplicates ?cs") auto
  from findDuplicates_Some [OF d] obtain j' where j': "j' < length ?cs" "?cs ! j' = d"
    "d \<in> set (take j' ?cs)" "distinct (take j' ?cs)" by blast
  from j'(3) obtain i' where i': "i' < j'" "?cs ! i' = d"
    using j'(1) by (auto simp: in_set_conv_nth)
  have dup: "\<exists>i' j'. i' < j' \<and> j' < length (Criteria m) \<and>
            trim (Criteria m ! i') = trim (Criteria m ! j') \<and>
            distinct (map trim (take j' (Criteria m))) \<and>
            newEffects s (snd (saveLocalization env m informUser s)) =
              [ShowError (MsgDuplicateCriterion (trim (Criteria m ! j')))]"
  proof (rule exI [of _ i'], rule exI [of _ j'], intro conjI)
    show "i' < j'" by (fact i'(1))
    show "j' < length (Criteria m)" using j'(1) by simp
    show "trim (Criteria m ! i') = trim (Criteria m ! j')" using i' j'(1,2) by simp
    show "distinct (map trim (take j' (Criteria m)))" using j'(4) by (simp add: take_map)
    show "newEffects s (snd (saveLocalization env m informUser s)) =
              [ShowError (MsgDuplicateCriterion (trim (Criteria m ! j')))]"
      using j'(1,2) by (simp add: saveLocalization_on_duplicate [OF d] newEffects_def)
  qed
  from saveLocalization_on_duplicate [OF d, of env informUser s] dup
  show ?thesis by simp
qed

text \<open>
  The theorem at the criteria \<open>a\<close> and \<open>a\<close> followed by a space: the only effect is the
  error naming \<open>a\<close>, and the entries of the rule are the old ones.
\<close>

theorem saveLocalization_duplicate_witness:
  "\<not> distinct (map trim (Criteria (exampleMessage [''a'', ''a '']))) \<and>
   fst (saveLocalization exampleEnvironment (exampleMessage [''a'', ''a '']) True exampleSession) = Inr () \<and>
   localizations (rule (snd (saveLocalization exampleEnvironment (exampleMessage [''a'', ''a '']) True
      exampleSession))) = localizations exampleRule \<and>
   newEffects exampleSession (snd (saveLocalization exampleEnvironment
      (exampleMessage [''a'', ''a '']) True exampleSession)) = [ShowError (MsgDuplicateCriterion ''a'')]"
proof -
  have dup: "\<not> distinct (map trim (Criteria (exampleMessage [''a'', ''a ''])))"
    by (simp add: exampleMessage_def trim_a trim_a_space)
  have fd: "findDuplicates (map trim (Criteria (exampleMessage [''a'', ''a '']))) = Some ''a''"
    by (simp add: exampleMessage_def trim_a trim_a_space findDuplicates_def)
  from saveLocalization_duplicate [OF dup, of exampleEnvironment True exampleSession]
    saveLocalization_on_duplicate [OF fd, of exampleEnvironment True exampleSession]
  show ?thesis using dup by (simp add: newEffects_def exampleSession_def)
qed

text \<open>
  C1 as stated fails: with the same duplicate criteria the Russian description of
  the rule is \<open>old ru\<close> before the call and \<open>new ru\<close> after it.
\<close>

theorem saveLocalization_duplicate_counterexample:
  "\<not> distinct (map trim (Criteria (exampleMessage [''a'', ''a '']))) \<and>
   ruDescription (rule exampleSession) = ''old ru'' \<and>
   ruDescription (rule (snd (saveLocalization exampleEnvironment (exampleMessage [''a'', ''a ''])
      True exampleSession))) = ''new ru''"
proof -
  have fd: "findDuplicates (map trim (Criteria (exampleMessage [''a'', ''a '']))) = Some ''a''"
    by (simp add: exampleMessage_def trim_a trim_a_space findDuplicates_def)
  have tr: "trim (RuDescription (exampleMessage [''a'', ''a ''])) = ''new ru''"
    by (simp add: exampleMessage_def trim_examples)
  show ?thesis
    by (simp add: saveLocalization_on_duplicate [OF fd] tr)
       (simp add: exampleMessage_def trim_a trim_a_space exampleSession_def exampleRule_def)
qed

text \<open>
  C3, as amended. When the trimmed criteria are equal at two positions \<open>i < j\<close>, the
  save fails with one error, and the criterion it names is the trimmed value at the first
  position \<open>j'\<close> that repeats an earlier one: \<open>j' \<le> j\<close>, some earlier position holds the
  same trimmed value, and the trimmed criteria before \<open>j'\<close> are pairwise different. It is
  the value at \<open>j\<close> itself when the trimmed criteria before \<open>j\<close> are pairwise different.
  \<open>JsHelper.findDuplicates\<close> is modelled from the spec.
\<close>

theorem saveLocalization_first_repeat:
  assumes "i < j" "j < length (Criteria m)" "trim (Criteria m ! i) = trim (Criteria m ! j)"
  shows "\<exists>j'\<le>j. (\<exists>i'<j'. trim (Criteria m ! i') = trim (Criteria m ! j')) \<and>
           distinct (map trim (take j' (Criteria m))) \<and>
           (distinct (map trim (take j (Criteria m))) \<longrightarrow> j' = j) \<and>
           fst (saveLocalization env m informUser s) = Inr () \<and>
           newEffects s (snd (saveLocalization env m informUser s)) =
             [ShowError (MsgDuplicateCriterion (trim (Criteria m ! j')))]"
proof -
  let ?cs = "map trim (Criteria m)"
  from assms have "i < j" "j < length ?cs" "?cs ! i = ?cs ! j" by simp_all
  from first_repeat [OF this] obtain j' where j': "j' \<le> j"
    "findDuplicates ?cs = Some (?cs ! j')" "\<exists>i'<j'. ?cs ! i' = ?cs ! j'" "distinct (take j' ?cs)"
    by blast
  from j' assms have lt: "j' < length (Criteria m)" by simp
  show ?thesis
  proof (rule exI [of _ j'], intro conjI impI)
    show "j' \<le> j" by (fact j'(1))
    show "\<exists>i'<j'. trim (Criteria m ! i') = trim (Criteria m ! j')"
      using j'(3) lt by auto
    show "distinct (map trim (take j' (Criteria m)))"
      using j'(4) by (simp add: take_map)
    show "j' = j" if d: "distinct (map trim (take j (Criteria m)))"
    proof (rule ccontr)
      assume "j' \<noteq> j"
      with j'(1) have less: "j' < j" by simp
      from j'(3) obtain i' where i': "i' < j'" "?cs ! i' = ?cs ! j'" by blast
      from d have dt: "distinct (take j ?cs)" by (simp add: take_map)
      from less i' assms(2) have li: "i' < length (take j ?cs)" and lj: "j' < length (take j ?cs)"
        and eq: "take j ?cs ! i' = take j ?cs ! j'" by simp_all
      from nth_eq_iff_index_eq [OF dt li lj] eq have "i' = j'" by blast
      with i'(1) show False by simp
    qed
    show "fst (saveLocalization env m informUser s) = Inr ()"
      by (simp add: saveLocalization_on_duplicate [OF j'(2)])
    show "newEffects s (snd (saveLocalization env m informUser s)) =
             [ShowError (MsgDuplicateCriterion (trim (Criteria m ! j')))]"
      using lt by (simp add: saveLocalization_on_duplicate [OF j'(2)] newEffects_def)
  qed
qed

text \<open>
  The theorem at the scenario of the spec: the criteria \<open>a\<close> and \<open>a\<close> followed by a
  space fail with the duplicate \<open>a\<close>.
\<close>

theorem saveLocalization_first_repeat_witness:
  "(0::nat) < 1 \<and> 1 < length (Criteria (exampleMessage [''a'', ''a ''])) \<and>
   trim (Criteria (exampleMessage [''a'', ''a '']) ! 0) = trim (Criteria (exampleMessage [''a'', ''a '']) ! 1) \<and>
   newEffects exampleSession (snd (saveLocalization exampleEnvironment
      (exampleMessage [''a'', ''a '']) True exampleSession)) = [ShowError (MsgDuplicateCriterion ''a'')]"
proof -
  have h1: "(0::nat) < 1" by simp
  have h2: "1 < length (Criteria (exampleMessage [''a'', ''a '']))" by (simp add: exampleMessage_def)
  have h3: "trim (Criteria (exampleMessage [''a'', ''a '']) ! 0) =
            trim (Criteria (exampleMessage [''a'', ''a '']) ! 1)"
    by (simp add: exampleMessage_def trim_a trim_a_space)
  from saveLocalization_first_repeat [OF h1 h2 h3, of exampleEnvironment True exampleSession]
  obtain j' where "j' \<le> 1" and e: "newEffects exampleSession (snd (saveLocalization exampleEnvironment
      (exampleMessage [''a'', ''a '']) True exampleSession)) =
      [ShowError (MsgDuplicateCriterion (trim (Criteria (exampleMessage [''a'', ''a '']) ! j')))]"
    by blast
  then have "j' = 0 \<or> j' = 1" by auto
  with e have "newEffects exampleSession (snd (saveLocalization exampleEnvironment
      (exampleMessage [''a'', ''a '']) True exampleSession)) = [ShowError (MsgDuplicateCriterion ''a'')]"
    by (auto simp: exampleMessage_def trim_a trim_a_space)
  with h1 h2 h3 show ?thesis by blast
qed

text \<open>
  C3 as stated fails when two different values repeat: in \<open>a, b, b, a\<close> the positions
  0 and 3 hold the same value \<open>a\<close>, yet the duplicate reported is \<open>b\<close>, met first at
  position 2.
\<close>

theorem saveLocalization_later_occurrence_counterexample:
  "trim (Criteria (exampleMessage [''a'', ''b'', ''b'', ''a'']) ! 0) =
     trim (Criteria (exampleMessage [''a'', ''b'', ''b'', ''a'']) ! 3) \<and>
   trim (Criteria (exampleMessage [''a'', ''b'', ''b'', ''a'']) ! 3) = ''a'' \<and>
   newEffects exampleSession (snd (saveLocalization exampleEnvironment
      (exampleMessage [''a'', ''b'', ''b'', ''a'']) True exampleSession)) =
     [ShowError (MsgDuplicateCriterion ''b'')]"
proof -
  have fd: "findDuplicates (map trim (Criteria (exampleMessage [''a'', ''b'', ''b'', ''a'']))) = Some ''b''"
    by (simp add: exampleMessage_def trim_a trim_b findDuplicates_def)
  show ?thesis
    by (simp add: saveLocalization_on_duplicate [OF fd] newEffects_def)
       (simp add: exampleMessage_def trim_a)
qed

text \<open>
  The white space of Unicode counts: \<open>a\<close> followed by U+00A0 is a duplicate of \<open>a\<close>.
\<close>

lemma duplicate_after_no_break_space:
  "newEffects exampleSession (snd (saveLocalization exampleEnvironment
      (exampleMessage [''a'', [CHR 0x61, CHR 0xC2, CHR 0xA0]]) True exampleSession)) =
     [ShowError (MsgDuplicateCriterion ''a'')]"
proof -
  have fd: "findDuplicates (map trim (Criteria (exampleMessage [''a'', [CHR 0x61, CHR 0xC2, CHR 0xA0]]))) =
              Some ''a''"
    by (simp add: exampleMessage_def trim_a trim_a_nbsp findDuplicates_def)
  show ?thesis
    by (simp add: saveLocalization_on_duplicate [OF fd] newEffects_def)
qed

text \<open>
  C7, as amended. An empty batch leaves the localization entries of the rule as they
  are, whatever else the call does, and so does a batch with a duplicate trimmed
  criterion, which is rejected; a batch that is not empty and has no duplicate replaces
  the whole list by the entries built from the batch, one per index.
\<close>

theorem saveLocalization_empty_or_replace:
  "localizations (rule (snd (saveLocalization env m informUser s))) =
     (if Criteria m = [] \<or> \<not> distinct (map trim (Criteria m)) then localizations (rule s)
      else map (\<lambda>index. makeLocalization (map (textToOneLineAndTrim env) (RuLocalizations m))
                        (map (textToOneLineAndTrim env) (EnLocalizations m))
                        (map trim (LocalizationIds m)) (trim (Criteria m ! index)) index)
            [0..<length (Criteria m)])"
proof (cases "distinct (map trim (Criteria m))")
  case True
  then show ?thesis
    using saveLocalization_localizations [of m env informUser s] by simp
next
  case False
  then obtain d where "findDuplicates (map trim (Criteria m)) = Some d"
    using findDuplicates_None [of "map trim (Criteria m)"]
    by (cases "findDuplicates (map trim (Criteria m))") auto
  from saveLocalization_on_duplicate [OF this, of env informUser s] False
  show ?thesis by simp
qed

text \<open>
  The theorem at the empty batch, which keeps the old entry, and at the criteria
  \<open>a, b\<close>, which replace it by two new entries.
\<close>

theorem saveLocalization_empty_or_replace_witness:
  "localizations (rule (snd (saveLocalization exampleEnvironment (exampleMessage []) True
      exampleSession))) = localizations exampleRule \<and>
   localizations (rule (snd (saveLocalization exampleEnvironment (exampleMessage [''a'', ''b'']) True
      exampleSession))) =
     [\<lparr>criteria = ''a'', ruLocalizationText = Some ''ru a'', enLocalizationText = Some ''en a'',
       localizationId = None\<rparr>,
      \<lparr>criteria = ''b'', ruLocalizationText = Some ''ru b'', enLocalizationText = Some ''en b'',
       localizationId = None\<rparr>]"
proof -
  have e: "Criteria (exampleMessage []) = []" by (simp add: exampleMessage_def)
  have n: "Criteria (exampleMessage [''a'', ''b'']) \<noteq> [] \<and>
           distinct (map trim (Criteria (exampleMessage [''a'', ''b''])))"
    by (simp add: exampleMessage_def trim_a trim_b)
  from saveLocalization_empty_or_replace [of exampleEnvironment "exampleMessage []" True exampleSession]
    saveLocalization_empty_or_replace [of exampleEnvironment "exampleMessage [''a'', ''b'']" True
      exampleSession] e n
  show ?thesis
    by (simp add: exampleSession_def)
       (simp add: exampleMessage_def exampleEnvironment_def makeLocalization_eq at_index_def
          trim_examples upt_2)
qed

text \<open>
  C7 as stated fails for a batch with a duplicate: the criteria \<open>a\<close> and \<open>a\<close> followed
  by a space are not an empty batch, and after the call the rule still holds its old
  entry.
\<close>

theorem saveLocalization_replace_counterexample:
  "Criteria (exampleMessage [''a'', ''a '']) \<noteq> [] \<and>
   localizations (rule exampleSession) =
     [\<lparr>criteria = ''old'', ruLocalizationText = Some ''ru'', enLocalizationText = Some ''en'',
       localizationId = Some ''id0''\<rparr>] \<and>
   localizations (rule (snd (saveLocalization exampleEnvironment (exampleMessage [''a'', ''a ''])
      True exampleSession))) =
     [\<lparr>criteria = ''old'', ruLocalizationText = Some ''ru'', enLocalizationText = Some ''en'',
       localizationId = Some ''id0''\<rparr>]"
proof -
  have fd: "findDuplicates (map trim (Criteria (exampleMessage [''a'', ''a '']))) = Some ''a''"
    by (simp add: exampleMessage_def trim_a trim_a_space findDuplicates_def)
  show ?thesis
    by (simp add: saveLocalization_on_duplicate [OF fd])
       (simp add: exampleMessage_def exampleSession_def exampleRule_def)
qed

text \<open>
  C8. For a batch that is not empty and whose trimmed criteria are pairwise different,
  the check passes (the first effect is the persisting call, on the updated rule) and the
  rule holds exactly one entry per index, in the order of the input: the entry at index
  \<open>i\<close> has the trimmed criterion \<open>i\<close>, the normalised texts at index \<open>i\<close> (undefined where
  an array is too short), and the trimmed id \<open>i\<close> exactly when that is not empty, else no
  id.
\<close>

theorem saveLocalization_entries:
  assumes "Criteria m \<noteq> []" and "distinct (map trim (Criteria m))"
  shows "localizations (rule (snd (saveLocalization env m informUser s))) =
           map (\<lambda>i. \<lparr>criteria = trim (Criteria m ! i),
                     ruLocalizationText = map_option (textToOneLineAndTrim env) (at_index (RuLocalizations m) i),
                     enLocalizationText = map_option (textToOneLineAndTrim env) (at_index (EnLocalizations m) i),
                     localizationId = (case at_index (LocalizationIds m) i of
                                         None \<Rightarrow> None
                                       | Some locId \<Rightarrow> if trim locId \<noteq> [] then Some (trim locId) else None)\<rparr>)
               [0..<length (Criteria m)] \<and>
         length (localizations (rule (snd (saveLocalization env m informUser s)))) = length (Criteria m) \<and>
         take 1 (newEffects s (snd (saveLocalization env m informUser s))) =
           [SaveMetaInfoAndLocalizations (rule (snd (saveLocalization env m informUser s)))]"
proof -
  from assms have fd: "findDuplicates (map trim (Criteria m)) = None"
    by (simp add: findDuplicates_None)
  have locs: "localizations (rule (snd (saveLocalization env m informUser s))) =
           map (\<lambda>i. \<lparr>criteria = trim (Criteria m ! i),
                     ruLocalizationText = map_option (textToOneLineAndTrim env) (at_index (RuLocalizations m) i),
                     enLocalizationText = map_option (textToOneLineAndTrim env) (at_index (EnLocalizations m) i),
                     localizationId = (case at_index (LocalizationIds m) i of
                                         None \<Rightarrow> None
                                       | Some locId \<Rightarrow> if trim locId \<noteq> [] then Some (trim locId) else None)\<rparr>)
               [0..<length (Criteria m)]"
    using assms saveLocalization_localizations [OF assms(2), of env informUser s]
    by (simp add: makeLocalization_map)
  have eff: "take 1 (newEffects s (snd (saveLocalization env m informUser s))) =
           [SaveMetaInfoAndLocalizations (rule (snd (saveLocalization env m informUser s)))]"
    using saveLocalization_on_valid [OF fd, of env informUser s]
    by (simp add: Let_def newEffects_def)
  show ?thesis using locs eff by simp
qed

text \<open>
  The theorem at the criteria \<open>a, b\<close> with the ids \<open>id1\<close> in spaces and a single
  space: the first entry keeps the trimmed id, the second has none.
\<close>

theorem saveLocalization_entries_witness:
  "Criteria ((exampleMessage [''a'', ''b''])\<lparr>LocalizationIds := ['' id1 '', '' '']\<rparr>) \<noteq> [] \<and>
   distinct (map trim (Criteria ((exampleMessage [''a'', ''b''])\<lparr>LocalizationIds := ['' id1 '', '' '']\<rparr>))) \<and>
   localizations (rule (snd (saveLocalization exampleEnvironment
      ((exampleMessage [''a'', ''b''])\<lparr>LocalizationIds := ['' id1 '', '' '']\<rparr>) True exampleSession))) =
     [\<lparr>criteria = ''a'', ruLocalizationText = Some ''ru a'', enLocalizationText = Some ''en a'',
       localizationId = Some ''id1''\<rparr>,
      \<lparr>criteria = ''b'', ruLocalizationText = Some ''ru b'', enLocalizationText = Some ''en b'',
       localizationId = None\<rparr>]"
proof -
  let ?m = "(exampleMessage [''a'', ''b''])\<lparr>LocalizationIds := ['' id1 '', '' '']\<rparr>"
  have h1: "Criteria ?m \<noteq> []" by (simp add: exampleMessage_def)
  have h2: "distinct (map trim (Criteria ?m))" by (simp add: exampleMessage_def trim_a trim_b)
  have t: "trim ''ru a'' = ''ru a''" "trim ''ru b'' = ''ru b''" "trim ''en a'' = ''en a''"
    "trim ''en b'' = ''en b''" "trim '' id1 '' = ''id1''" "trim '' '' = []"
    by (simp_all add: trim_examples)
  from saveLocalization_entries [OF h1 h2, of exampleEnvironment True exampleSession]
  have "localizations (rule (snd (saveLocalization exampleEnvironment ?m True exampleSession))) =
     [\<lparr>criteria = ''a'', ruLocalizationText = Some ''ru a'', enLocalizationText = Some ''en a'',
       localizationId = Some ''id1''\<rparr>,
      \<lparr>criteria = ''b'', ruLocalizationText = Some ''ru b'', enLocalizationText = Some ''en b'',
       localizationId = None\<rparr>]"
    by (simp add: exampleMessage_def exampleEnvironment_def at_index_def trim_a trim_b t upt_2)
  with h1 h2 show ?thesis by blast
qed

section \<open>Building localizations\<close>

lemmas handler_defs =
  receiveMessageFromWebView_def buildLocalizationsTry_def buildLocalizationsCatch_def
  classifyExamples_def refreshTree_def getLocalizationExamples_def runTests_def
  askForOldResults_def saveLocalization_def makeLocalization_def Localization_create_def
  setLocalizationId_def at_index_def findDuplicates_def falsy_def
  emit_def onRule_def newEffects_def setStatus_def setRuDescription_def setEnDescription_def
  setLocalizationTemplates_def setLocalizationExamples_def Let_def

lemmas example_defs =
  exampleEnvironment_def exampleSession_def exampleRule_def exampleMessage_def
  failingTestsEnvironment_def oldResultsEnvironment_def brokenDiskEnvironment_def
  unreadableEnvironment_def trim_examples

text \<open>
  C2, as amended. After lines 214-230 the status of the rule is Unverified when some
  example has a Russian text that is a default localization, Verified when the list is
  not empty and none has, and unchanged when the list is empty: then the handler only
  tells the user that no localization fired and returns.
\<close>

theorem classifyExamples_status:
  "status (rule (snd (classifyExamples env locExamples s))) =
     (if locExamples = [] then status (rule s)
      else if \<exists>le\<in>set locExamples. isDefaultLocalization env (ruText le) then Unverified
      else Verified) \<and>
   (locExamples = [] \<longrightarrow>
      classifyExamples env locExamples s = (Inr (), emit (ShowInfo MsgNoLocalizationFired []) s))"
  by (cases "refresh env (rule s)")
     (auto simp: classifyExamples_def refreshTree_def Let_def emit_def onRule_def setStatus_def
        setLocalizationExamples_def list_ex_iff split: option.splits)

text \<open>
  The theorem at a list with a default text (Unverified), at a list without one
  (Verified), and at the empty list.
\<close>

theorem classifyExamples_status_witness:
  "status (rule (snd (classifyExamples exampleEnvironment
      [\<lparr>ruText = ''user logged in'', enText = ''e''\<rparr>, \<lparr>ruText = ''default'', enText = ''d''\<rparr>]
      exampleSession))) = Unverified \<and>
   status (rule (snd (classifyExamples exampleEnvironment
      [\<lparr>ruText = ''user logged in'', enText = ''e''\<rparr>]
      (onRule (setStatus Default None) exampleSession)))) = Verified \<and>
   classifyExamples exampleEnvironment [] (onRule (setStatus Default None) exampleSession) =
     (Inr (), emit (ShowInfo MsgNoLocalizationFired []) (onRule (setStatus Default None) exampleSession))"
  using classifyExamples_status [of exampleEnvironment
      "[\<lparr>ruText = ''user logged in'', enText = ''e''\<rparr>, \<lparr>ruText = ''default'', enText = ''d''\<rparr>]"
      exampleSession]
    classifyExamples_status [of exampleEnvironment "[\<lparr>ruText = ''user logged in'', enText = ''e''\<rparr>]"
      "onRule (setStatus Default None) exampleSession"]
    classifyExamples_status [of exampleEnvironment "[]" "onRule (setStatus Default None) exampleSession"]
  by (simp add: exampleEnvironment_def)

text \<open>
  C2 as stated fails for the empty list: a build whose extraction yields no example
  ends with the status Default, not Verified, on a rule that was Verified before, and its
  last effect is the information that no localization fired.
\<close>

theorem empty_examples_counterexample:
  "status (rule (snd (receiveMessageFromWebView exampleEnvironment
      (BuildLocalizations (exampleMessage [''a''])) exampleSession))) = Default \<and>
   last (effects (snd (receiveMessageFromWebView exampleEnvironment
      (BuildLocalizations (exampleMessage [''a''])) exampleSession))) = ShowInfo MsgNoLocalizationFired [] \<and>
   buildLocalizationExamples exampleEnvironment exampleRule ''/tmp/x'' = Inr []"
  by (simp add: handler_defs example_defs)

text \<open>
  C4. When every run of the integration tests completes with \<open>testsStatus = false\<close>
  and the handler of \<open>buildLocalizations\<close> runs the tests, the body of its \<open>try\<close> ends
  with the exception of line 346, the extraction \<open>buildLocalizationExamples\<close> is never
  called, and the handler passes that exception to \<open>ExceptionHelper.show\<close>.
\<close>

theorem tests_failed_short_circuit:
  assumes "\<forall>x. testRunnerRun env x = Inr False"
    and "list_ex isTestRun
           (newEffects s (snd (receiveMessageFromWebView env (BuildLocalizations payload) s)))"
  shows "fst (buildLocalizationsTry env payload s) = Inl (XpException MsgTestsNotPassed) \<and>
         \<not> list_ex isExtraction
           (newEffects s (snd (receiveMessageFromWebView env (BuildLocalizations payload) s))) \<and>
         ExceptionHelperShow (XpException MsgTestsNotPassed) MsgUnexpectedTestingError
           \<in> set (newEffects s (snd (receiveMessageFromWebView env (BuildLocalizations payload) s)))"
proof -
  obtain r s1 where t: "buildLocalizationsTry env payload s = (r, s1)"
    by (cases "buildLocalizationsTry env payload s")
  from buildLocalizationsTry_frame [OF t] assms(1) obtain es where
    es: "effects s1 = effects s @ es"
      "list_ex isTestRun es \<longrightarrow> r = Inl (XpException MsgTestsNotPassed) \<and> \<not> list_ex isExtraction es"
    by auto
  have run: "list_ex isTestRun es"
  proof (cases r)
    case (Inr u)
    with t assms(2) es(1) show ?thesis
      by (simp add: receiveMessageFromWebView_def newEffects_def)
  next
    case (Inl e)
    with t assms(2) es(1) show ?thesis
      by (cases "deleteAllSubDirectoriesAndFiles env (integrationTestTmpFilesPath s1)")
         (simp_all add: receiveMessageFromWebView_def newEffects_def buildLocalizationsCatch_def
            Let_def emit_def split: if_splits)
  qed
  with es have r: "r = Inl (XpException MsgTestsNotPassed)" and ne: "\<not> list_ex isExtraction es"
    by simp_all
  from t r es(1) ne show ?thesis
    by (cases "deleteAllSubDirectoriesAndFiles env (integrationTestTmpFilesPath s1)")
       (simp_all add: receiveMessageFromWebView_def newEffects_def buildLocalizationsCatch_def
          Let_def emit_def)
qed

lemma failing_tests_run:
  "newEffects exampleSession (snd (receiveMessageFromWebView failingTestsEnvironment
      (BuildLocalizations (exampleMessage [''a''])) exampleSession)) =
   [TreeRefresh (exampleRule\<lparr>status := Default\<rparr>),
    SaveMetaInfoAndLocalizations
      (exampleRule\<lparr>ruDescription := ''new ru'', enDescription := ''new en'',
         localizations := [\<lparr>criteria = ''a'', ruLocalizationText = Some ''ru a'',
            enLocalizationText = Some ''en a'', localizationId = None\<rparr>],
         status := Default\<rparr>),
    ProgressReport MsgGettingDependencies, GetIntegrationTestRunOptions,
    ProgressReport MsgGettingEvents, IntegrationTestRun ''/tmp/x'',
    ExceptionHelperShow (XpException MsgTestsNotPassed) MsgUnexpectedTestingError,
    DeleteAllSubDirectoriesAndFiles ''/tmp/x'']"
  by (simp add: handler_defs example_defs)

text \<open>
  The theorem at a rule without old results, for which the tests are run and fail.
\<close>

theorem tests_failed_short_circuit_witness:
  "(\<forall>x. testRunnerRun failingTestsEnvironment x = Inr False) \<and>
   list_ex isTestRun (newEffects exampleSession (snd (receiveMessageFromWebView failingTestsEnvironment
      (BuildLocalizations (exampleMessage [''a''])) exampleSession))) \<and>
   fst (buildLocalizationsTry failingTestsEnvironment (exampleMessage [''a'']) exampleSession) =
      Inl (XpException MsgTestsNotPassed) \<and>
   \<not> list_ex isExtraction (newEffects exampleSession (snd (receiveMessageFromWebView
      failingTestsEnvironment (BuildLocalizations (exampleMessage [''a''])) exampleSession)))"
proof -
  have h1: "\<forall>x. testRunnerRun failingTestsEnvironment x = Inr False"
    by (simp add: failingTestsEnvironment_def exampleEnvironment_def)
  have h2: "list_ex isTestRun (newEffects exampleSession (snd (receiveMessageFromWebView
      failingTestsEnvironment (BuildLocalizations (exampleMessage [''a''])) exampleSession)))"
    by (simp add: failing_tests_run)
  from tests_failed_short_circuit [OF h1 h2] h1 h2 show ?thesis by simp
qed

text \<open>
  C5. The handler of \<open>buildLocalizations\<close> never throws. When the body of its \<open>try\<close>
  ends with \<open>OperationCanceledException\<close>, the handler only passes it to
  \<open>ExceptionHelper.show\<close>, which opens no dialog for it (modelled from the spec), and no
  cleanup of the directory is called during the whole handling. When it ends with any
  other exception, the handler shows it and calls the cleanup of the directory once; an
  exception of the cleanup is logged as a warning and nothing more.
\<close>

theorem build_failure_handling:
  "fst (receiveMessageFromWebView env (BuildLocalizations payload) s) = Inr () \<and>
   (fst (buildLocalizationsTry env payload s) = Inl OperationCanceledException \<longrightarrow>
      newEffects (snd (buildLocalizationsTry env payload s))
        (snd (receiveMessageFromWebView env (BuildLocalizations payload) s)) =
        [ExceptionHelperShow OperationCanceledException MsgUnexpectedTestingError] \<and>
      concat (map dialogsOf (newEffects (snd (buildLocalizationsTry env payload s))
        (snd (receiveMessageFromWebView env (BuildLocalizations payload) s)))) = [] \<and>
      \<not> list_ex isCleanup
        (newEffects s (snd (receiveMessageFromWebView env (BuildLocalizations payload) s)))) \<and>
   (\<forall>e. fst (buildLocalizationsTry env payload s) = Inl e \<and> e \<noteq> OperationCanceledException \<longrightarrow>
      newEffects (snd (buildLocalizationsTry env payload s))
        (snd (receiveMessageFromWebView env (BuildLocalizations payload) s)) =
        ExceptionHelperShow e MsgUnexpectedTestingError #
        DeleteAllSubDirectoriesAndFiles (integrationTestTmpFilesPath s) #
        (case deleteAllSubDirectoriesAndFiles env (integrationTestTmpFilesPath s) of
           None \<Rightarrow> []
         | Some cleanupError \<Rightarrow> [LogWarn MsgCleanupFailed cleanupError]))"
proof -
  obtain r s1 where t: "buildLocalizationsTry env payload s = (r, s1)"
    by (cases "buildLocalizationsTry env payload s")
  from buildLocalizationsTry_frame [OF t] obtain es where
    es: "effects s1 = effects s @ es" "\<not> list_ex isCleanup es"
      "integrationTestTmpFilesPath s1 = integrationTestTmpFilesPath s"
    by blast
  have 1: "fst (receiveMessageFromWebView env (BuildLocalizations payload) s) = Inr ()"
    using t by (cases r) (simp_all add: receiveMessageFromWebView_def)
  have 2: "newEffects s1 (snd (receiveMessageFromWebView env (BuildLocalizations payload) s)) =
             [ExceptionHelperShow OperationCanceledException MsgUnexpectedTestingError] \<and>
           concat (map dialogsOf (newEffects s1
             (snd (receiveMessageFromWebView env (BuildLocalizations payload) s)))) = [] \<and>
           \<not> list_ex isCleanup
             (newEffects s (snd (receiveMessageFromWebView env (BuildLocalizations payload) s)))"
    if "r = Inl OperationCanceledException"
    using that t es
    by (simp add: receiveMessageFromWebView_def buildLocalizationsCatch_def Let_def emit_def
          newEffects_def)
  have 3: "newEffects s1 (snd (receiveMessageFromWebView env (BuildLocalizations payload) s)) =
        ExceptionHelperShow e MsgUnexpectedTestingError #
        DeleteAllSubDirectoriesAndFiles (integrationTestTmpFilesPath s) #
        (case deleteAllSubDirectoriesAndFiles env (integrationTestTmpFilesPath s) of
           None \<Rightarrow> []
         | Some cleanupError \<Rightarrow> [LogWarn MsgCleanupFailed cleanupError])"
    if "r = Inl e" "e \<noteq> OperationCanceledException" for e
    using that t es
    by (cases "deleteAllSubDirectoriesAndFiles env (integrationTestTmpFilesPath s)")
       (simp_all add: receiveMessageFromWebView_def buildLocalizationsCatch_def Let_def emit_def
          newEffects_def)
  from 1 2 3 t show ?thesis by simp
qed

lemma dismissed_prompt_run:
  "buildLocalizationsTry (oldResultsEnvironment None) (exampleMessage [''a'']) exampleSession =
     (Inl OperationCanceledException,
      \<lparr>rule = exampleRule\<lparr>ruDescription := ''new ru'', enDescription := ''new en'',
         localizations := [\<lparr>criteria = ''a'', ruLocalizationText = Some ''ru a'',
            enLocalizationText = Some ''en a'', localizationId = None\<rparr>],
         status := Default\<rparr>,
       integrationTestTmpFilesPath = ''/tmp/x'',
       effects =
         [TreeRefresh (exampleRule\<lparr>status := Default\<rparr>),
          SaveMetaInfoAndLocalizations
            (exampleRule\<lparr>ruDescription := ''new ru'', enDescription := ''new en'',
               localizations := [\<lparr>criteria = ''a'', ruLocalizationText = Some ''ru a'',
                  enLocalizationText = Some ''en a'', localizationId = None\<rparr>],
               status := Default\<rparr>),
          ShowInfo MsgPreviousResultsFound [USE_OLD_TESTS_RESULT, RESTART_TESTS]]\<rparr>)"
  by (simp add: handler_defs example_defs)

lemma broken_disk_run:
  "fst (buildLocalizationsTry brokenDiskEnvironment (exampleMessage [''a'']) exampleSession) =
     Inl (OtherException ''EIO'')"
  by (simp add: handler_defs example_defs)

text \<open>
  The theorem at a dismissed prompt, which cancels, and at an extraction that fails
  on a disk whose cleanup fails too.
\<close>

theorem build_failure_handling_witness:
  "fst (buildLocalizationsTry (oldResultsEnvironment None) (exampleMessage [''a'']) exampleSession) =
     Inl OperationCanceledException \<and>
   \<not> list_ex isCleanup (newEffects exampleSession (snd (receiveMessageFromWebView
      (oldResultsEnvironment None) (BuildLocalizations (exampleMessage [''a''])) exampleSession))) \<and>
   fst (buildLocalizationsTry brokenDiskEnvironment (exampleMessage [''a'']) exampleSession) =
     Inl (OtherException ''EIO'') \<and>
   OtherException ''EIO'' \<noteq> OperationCanceledException \<and>
   fst (receiveMessageFromWebView brokenDiskEnvironment (BuildLocalizations (exampleMessage [''a'']))
      exampleSession) = Inr () \<and>
   newEffects (snd (buildLocalizationsTry brokenDiskEnvironment (exampleMessage [''a'']) exampleSession))
     (snd (receiveMessageFromWebView brokenDiskEnvironment (BuildLocalizations (exampleMessage [''a'']))
        exampleSession)) =
     [ExceptionHelperShow (OtherException ''EIO'') MsgUnexpectedTestingError,
      DeleteAllSubDirectoriesAndFiles ''/tmp/x'',
      LogWarn MsgCleanupFailed (OtherException ''EBUSY'')]"
proof -
  have d: "deleteAllSubDirectoriesAndFiles brokenDiskEnvironment ''/tmp/x'' =
             Some (OtherException ''EBUSY'')"
    by (simp add: brokenDiskEnvironment_def exampleEnvironment_def)
  have p: "integrationTestTmpFilesPath exampleSession = ''/tmp/x''"
    by (simp add: exampleSession_def)
  have c: "fst (buildLocalizationsTry (oldResultsEnvironment None) (exampleMessage [''a''])
             exampleSession) = Inl OperationCanceledException"
    by (simp add: dismissed_prompt_run)
  have n: "OtherException ''EIO'' \<noteq> OperationCanceledException" by simp
  from build_failure_handling [of "oldResultsEnvironment None" "exampleMessage [''a'']" exampleSession] c
  have 1: "\<not> list_ex isCleanup (newEffects exampleSession (snd (receiveMessageFromWebView
      (oldResultsEnvironment None) (BuildLocalizations (exampleMessage [''a''])) exampleSession)))"
    by blast
  from build_failure_handling [of brokenDiskEnvironment "exampleMessage [''a'']" exampleSession]
  have 2: "fst (receiveMessageFromWebView brokenDiskEnvironment
      (BuildLocalizations (exampleMessage [''a''])) exampleSession) = Inr ()"
    and 3: "\<forall>e. fst (buildLocalizationsTry brokenDiskEnvironment (exampleMessage [''a''])
                exampleSession) = Inl e \<and> e \<noteq> OperationCanceledException \<longrightarrow>
      newEffects (snd (buildLocalizationsTry brokenDiskEnvironment (exampleMessage [''a''])
          exampleSession))
        (snd (receiveMessageFromWebView brokenDiskEnvironment
          (BuildLocalizations (exampleMessage [''a''])) exampleSession)) =
        ExceptionHelperShow e MsgUnexpectedTestingError #
        DeleteAllSubDirectoriesAndFiles (integrationTestTmpFilesPath exampleSession) #
        (case deleteAllSubDirectoriesAndFiles brokenDiskEnvironment
                (integrationTestTmpFilesPath exampleSession) of
           None \<Rightarrow> []
         | Some cleanupError \<Rightarrow> [LogWarn MsgCleanupFailed cleanupError])"
    by blast+
  from 3 broken_disk_run n
  have 4: "newEffects (snd (buildLocalizationsTry brokenDiskEnvironment (exampleMessage [''a''])
          exampleSession))
        (snd (receiveMessageFromWebView brokenDiskEnvironment
          (BuildLocalizations (exampleMessage [''a''])) exampleSession)) =
        ExceptionHelperShow (OtherException ''EIO'') MsgUnexpectedTestingError #
        DeleteAllSubDirectoriesAndFiles (integrationTestTmpFilesPath exampleSession) #
        (case deleteAllSubDirectoriesAndFiles brokenDiskEnvironment
                (integrationTestTmpFilesPath exampleSession) of
           None \<Rightarrow> []
         | Some cleanupError \<Rightarrow> [LogWarn MsgCleanupFailed cleanupError])"
    by blast
  have 5: "newEffects (snd (buildLocalizationsTry brokenDiskEnvironment (exampleMessage [''a''])
          exampleSession))
        (snd (receiveMessageFromWebView brokenDiskEnvironment
          (BuildLocalizations (exampleMessage [''a''])) exampleSession)) =
     [ExceptionHelperShow (OtherException ''EIO'') MsgUnexpectedTestingError,
      DeleteAllSubDirectoriesAndFiles ''/tmp/x'',
      LogWarn MsgCleanupFailed (OtherException ''EBUSY'')]"
    unfolding 4 by (simp add: p d)
  from c 1 broken_disk_run n 2 5 show ?thesis by blast
qed

text \<open>
  C6. \<open>getLocalizationExamples\<close> shows the prompt exactly when the path exists and
  \<open>readdir\<close> returns at least one entry. When the path does not exist or the directory
  is empty, nothing is asked and the tests are regenerated: the options are obtained, the
  runner is called, and the extraction follows when all tests passed; the same happens,
  after the prompt, when the user chose to restart. A dismissed prompt (undefined or empty
  answer) throws \<open>OperationCanceledException\<close> with the prompt as only effect, so the
  tests are not run and nothing is extracted. Any other answer goes on to the extraction
  without a run of the tests. When \<open>readdir\<close> is rejected, its exception leaves the
  function at once.
\<close>

theorem reuse_decision:
  "(let dir = integrationTestTmpFilesPath s;
        prompt = ShowInfo MsgPreviousResultsFound [USE_OLD_TESTS_RESULT, RESTART_TESTS];
        artifacts = (existsSync env dir \<and> (\<exists>items. readdir env dir = Inr items \<and> items \<noteq> []));
        none = (\<not> existsSync env dir \<or> readdir env dir = Inr []);
        asked = (if artifacts then [prompt] else [])
    in (prompt \<in> set (newEffects s (snd (getLocalizationExamples env s))) \<longleftrightarrow> artifacts) \<and>
       (none \<or> artifacts \<and> showInfoAnswer env = Some RESTART_TESTS \<longrightarrow>
          getLocalizationExamples env s =
            (case getIntegrationTestRunOptions env (rule s) of
               Some e \<Rightarrow>
                 (Inl e, s\<lparr>effects := effects s @ asked @
                    [ProgressReport MsgGettingDependencies, GetIntegrationTestRunOptions]\<rparr>)
             | None \<Rightarrow>
                 (case testRunnerRun env (rule s) of
                    Inl e \<Rightarrow>
                      (Inl e, s\<lparr>effects := effects s @ asked @
                         [ProgressReport MsgGettingDependencies, GetIntegrationTestRunOptions,
                          ProgressReport MsgGettingEvents, IntegrationTestRun dir]\<rparr>)
                  | Inr testsStatus \<Rightarrow>
                      if testsStatus then
                        (buildLocalizationExamples env (rule s) dir,
                         s\<lparr>effects := effects s @ asked @
                           [ProgressReport MsgGettingDependencies, GetIntegrationTestRunOptions,
                            ProgressReport MsgGettingEvents, IntegrationTestRun dir,
                            ProgressReport MsgGeneratingLocalizations,
                            BuildLocalizationExamples dir]\<rparr>)
                      else
                        (Inl (XpException MsgTestsNotPassed),
                         s\<lparr>effects := effects s @ asked @
                           [ProgressReport MsgGettingDependencies, GetIntegrationTestRunOptions,
                            ProgressReport MsgGettingEvents, IntegrationTestRun dir]\<rparr>)))) \<and>
       (artifacts \<and> falsy (showInfoAnswer env) \<longrightarrow>
          getLocalizationExamples env s =
            (Inl OperationCanceledException, s\<lparr>effects := effects s @ [prompt]\<rparr>)) \<and>
       (artifacts \<and> \<not> falsy (showInfoAnswer env) \<and> showInfoAnswer env \<noteq> Some RESTART_TESTS \<longrightarrow>
          getLocalizationExamples env s =
            (buildLocalizationExamples env (rule s) dir,
             s\<lparr>effects := effects s @
               [prompt, ProgressReport MsgGeneratingLocalizations, BuildLocalizationExamples dir]\<rparr>)) \<and>
       (\<forall>e. existsSync env dir \<and> readdir env dir = Inl e \<longrightarrow>
          getLocalizationExamples env s = (Inl e, s)))"
  by (auto simp: getLocalizationExamples_def askForOldResults_effects runTests_effects Let_def
        emit_def newEffects_def falsy_def RESTART_TESTS_def split: option.splits sum.splits)

text \<open>
  The theorem without a directory, with old results and a dismissed prompt, with old
  results the user chose to use, with old results the user chose to replace, and with a
  path that cannot be read.
\<close>

theorem reuse_decision_witness:
  "getLocalizationExamples exampleEnvironment exampleSession =
     (Inr [], exampleSession\<lparr>effects :=
        [ProgressReport MsgGettingDependencies, GetIntegrationTestRunOptions,
         ProgressReport MsgGettingEvents, IntegrationTestRun ''/tmp/x'',
         ProgressReport MsgGeneratingLocalizations, BuildLocalizationExamples ''/tmp/x'']\<rparr>) \<and>
   getLocalizationExamples (oldResultsEnvironment None) exampleSession =
     (Inl OperationCanceledException, exampleSession\<lparr>effects :=
        [ShowInfo MsgPreviousResultsFound [USE_OLD_TESTS_RESULT, RESTART_TESTS]]\<rparr>) \<and>
   getLocalizationExamples (oldResultsEnvironment (Some USE_OLD_TESTS_RESULT)) exampleSession =
     (Inr [], exampleSession\<lparr>effects :=
        [ShowInfo MsgPreviousResultsFound [USE_OLD_TESTS_RESULT, RESTART_TESTS],
         ProgressReport MsgGeneratingLocalizations, BuildLocalizationExamples ''/tmp/x'']\<rparr>) \<and>
   getLocalizationExamples (oldResultsEnvironment (Some RESTART_TESTS)) exampleSession =
     (Inr [], exampleSession\<lparr>effects :=
        [ShowInfo MsgPreviousResultsFound [USE_OLD_TESTS_RESULT, RESTART_TESTS],
         ProgressReport MsgGettingDependencies, GetIntegrationTestRunOptions,
         ProgressReport MsgGettingEvents, IntegrationTestRun ''/tmp/x'',
         ProgressReport MsgGeneratingLocalizations, BuildLocalizationExamples ''/tmp/x'']\<rparr>) \<and>
   getLocalizationExamples unreadableEnvironment exampleSession =
     (Inl (OtherException ''ENOTDIR''), exampleSession)"
proof -
  have 1: "getLocalizationExamples exampleEnvironment exampleSession =
     (Inr [], exampleSession\<lparr>effects :=
        [ProgressReport MsgGettingDependencies, GetIntegrationTestRunOptions,
         ProgressReport MsgGettingEvents, IntegrationTestRun ''/tmp/x'',
         ProgressReport MsgGeneratingLocalizations, BuildLocalizationExamples ''/tmp/x'']\<rparr>)"
    using reuse_decision [of exampleSession exampleEnvironment]
    by (simp add: Let_def exampleEnvironment_def exampleSession_def)
  have 2: "getLocalizationExamples (oldResultsEnvironment None) exampleSession =
     (Inl OperationCanceledException, exampleSession\<lparr>effects :=
        [ShowInfo MsgPreviousResultsFound [USE_OLD_TESTS_RESULT, RESTART_TESTS]]\<rparr>)"
    using reuse_decision [of exampleSession "oldResultsEnvironment None"]
    by (simp add: Let_def oldResultsEnvironment_def exampleEnvironment_def exampleSession_def
          falsy_def)
  have 3: "getLocalizationExamples (oldResultsEnvironment (Some USE_OLD_TESTS_RESULT)) exampleSession =
     (Inr [], exampleSession\<lparr>effects :=
        [ShowInfo MsgPreviousResultsFound [USE_OLD_TESTS_RESULT, RESTART_TESTS],
         ProgressReport MsgGeneratingLocalizations, BuildLocalizationExamples ''/tmp/x'']\<rparr>)"
    using reuse_decision [of exampleSession "oldResultsEnvironment (Some USE_OLD_TESTS_RESULT)"]
    by (simp add: Let_def oldResultsEnvironment_def exampleEnvironment_def exampleSession_def
          falsy_def USE_OLD_TESTS_RESULT_def RESTART_TESTS_def)
  have 4: "getLocalizationExamples (oldResultsEnvironment (Some RESTART_TESTS)) exampleSession =
     (Inr [], exampleSession\<lparr>effects :=
        [ShowInfo MsgPreviousResultsFound [USE_OLD_TESTS_RESULT, RESTART_TESTS],
         ProgressReport MsgGettingDependencies, GetIntegrationTestRunOptions,
         ProgressReport MsgGettingEvents, IntegrationTestRun ''/tmp/x'',
         ProgressReport MsgGeneratingLocalizations, BuildLocalizationExamples ''/tmp/x'']\<rparr>)"
    using reuse_decision [of exampleSession "oldResultsEnvironment (Some RESTART_TESTS)"]
    by (simp add: Let_def oldResultsEnvironment_def exampleEnvironment_def exampleSession_def)
  have 5: "getLocalizationExamples unreadableEnvironment exampleSession =
     (Inl (OtherException ''ENOTDIR''), exampleSession)"
    using reuse_decision [of exampleSession unreadableEnvironment]
    by (simp add: Let_def unreadableEnvironment_def exampleEnvironment_def)
  from 1 2 3 4 5 show ?thesis by blast
qed

section \<open>Updating the rule\<close>

text \<open>
  C9. \<open>updateRule\<close> returns true exactly when a view is open, a rule is set and the new
  rule has its name. Then the new rule, with the icon and the localization examples of the
  old one, becomes the rule of the provider. Otherwise the new rule and the provider are
  unchanged.
\<close>

theorem updateRule_result:
  "fst (updateRule newRule p) =
     (p_view p \<noteq> None \<and> (\<exists>r. p_rule p = Some r \<and> name r = name newRule)) \<and>
   (fst (updateRule newRule p) \<longrightarrow>
      (\<exists>r. p_rule p = Some r \<and>
           fst (snd (updateRule newRule p)) =
             newRule\<lparr>iconPath := iconPath r, localizationExamples := localizationExamples r\<rparr> \<and>
           snd (snd (updateRule newRule p)) =
             p\<lparr>p_rule := Some (newRule\<lparr>iconPath := iconPath r,
                                       localizationExamples := localizationExamples r\<rparr>)\<rparr>)) \<and>
   (\<not> fst (updateRule newRule p) \<longrightarrow>
      fst (snd (updateRule newRule p)) = newRule \<and> snd (snd (updateRule newRule p)) = p)"
  by (cases "p_view p"; cases "p_rule p")
     (simp_all add: updateRule_def Let_def setLocalizationExamples_def)

text \<open>
  The theorem at an edited rule of the same name, at a rule of another name, and at a
  provider without view.
\<close>

theorem updateRule_result_witness:
  "fst (updateRule (exampleRule\<lparr>ruDescription := ''edited''\<rparr>) exampleProvider) \<and>
   p_rule (snd (snd (updateRule (exampleRule\<lparr>ruDescription := ''edited''\<rparr>) exampleProvider))) =
     Some (exampleRule\<lparr>ruDescription := ''edited'', iconPath := Some ''verified.svg'',
             localizationExamples := [\<lparr>ruText = ''ru'', enText = ''en''\<rparr>]\<rparr>) \<and>
   \<not> fst (updateRule (exampleRule\<lparr>name := ''Other''\<rparr>) exampleProvider) \<and>
   snd (snd (updateRule (exampleRule\<lparr>name := ''Other''\<rparr>) exampleProvider)) = exampleProvider \<and>
   \<not> fst (updateRule exampleRule (exampleProvider\<lparr>p_view := None\<rparr>)) \<and>
   snd (snd (updateRule exampleRule (exampleProvider\<lparr>p_view := None\<rparr>))) =
     exampleProvider\<lparr>p_view := None\<rparr>"
  using updateRule_result [of "exampleRule\<lparr>ruDescription := ''edited''\<rparr>" exampleProvider]
    updateRule_result [of "exampleRule\<lparr>name := ''Other''\<rparr>" exampleProvider]
    updateRule_result [of exampleRule "exampleProvider\<lparr>p_view := None\<rparr>"]
  by (simp add: exampleProvider_def exampleRule_def)

section \<open>Object ids\<close>

text \<open>
  The CRC-32 of \<open>b\<close> is \<open>0x71BEEFF9 = 1908338681\<close>, a value of ten digits, of which
  the ids keep nine.
\<close>

lemma funpow8: "(f ^^ 8) x = f (f (f (f (f (f (f (f x)))))))"
  by (simp add: eval_nat_numeral)

lemma crc32_byte_b: "crc32_byte 0xFFFFFFFF CHR ''b'' = 0x8E411006"
  by (simp add: crc32_byte_def crc32_shift_def funpow8)

lemma crc32_str_b: "crc32_str ''b'' = 1908338681"
  by (simp add: crc32_str_def crc32_byte_b)

lemma natToString_example: "natToString 1908338681 = ''1908338681''"
  by (simp add: natToString.simps digitChar_def)

text \<open>
  C10. For every rule name and content prefix, \<open>generateRuleObjectId\<close> yields the prefix,
  \<open>-CR-\<close> and a numeric part, and \<open>generatePackageObjectId\<close> the prefix, \<open>-PKG-\<close>
  and the same numeric part: the decimal digits of the absolute value of the CRC-32 of
  the rule name, cut to its first nine characters. The numeric part has between one and
  nine characters, all of them digits. Both are functions of their two arguments, so
  equal inputs give equal ids.
\<close>

theorem generateObjectId_form:
  "\<exists>objectId.
     generateRuleObjectId ruleName contentPrefix = contentPrefix @ ''-CR-'' @ objectId \<and>
     generatePackageObjectId ruleName contentPrefix = contentPrefix @ ''-PKG-'' @ objectId \<and>
     objectId = take 9 (natToString (nat \<bar>crc32_str ruleName\<bar>)) \<and>
     objectId \<noteq> [] \<and> length objectId \<le> 9 \<and> list_all isDigit objectId"
proof -
  let ?d = "substring (toString \<bar>crc32_str ruleName\<bar>) 0 9"
  have eq: "?d = take 9 (natToString (nat \<bar>crc32_str ruleName\<bar>))"
    by (simp add: substring_0 toString_nonneg)
  have ne: "?d \<noteq> []" using natToString_nonempty by (simp add: eq)
  have len: "length ?d \<le> 9" by (simp add: eq)
  have dig: "list_all isDigit ?d" by (rule objectId_digits)
  show ?thesis
  proof (intro exI conjI)
    show "generateRuleObjectId ruleName contentPrefix = contentPrefix @ ''-CR-'' @ ?d"
      by (simp add: generateRuleObjectId_def Let_def)
    show "generatePackageObjectId ruleName contentPrefix = contentPrefix @ ''-PKG-'' @ ?d"
      by (simp add: generatePackageObjectId_def Let_def)
  qed (fact eq ne len dig)+
qed

theorem generateObjectId_form_witness:
  "generateRuleObjectId ''b'' ''LOC'' = ''LOC-CR-190833868'' \<and>
   generatePackageObjectId ''b'' ''LOC'' = ''LOC-PKG-190833868''"
  using generateObjectId_form [of "''b''" "''LOC''"]
  by (simp add: crc32_str_b natToString_example)

end
